theory Spec2Isabelle
  imports Complex_Main "HOL-Library.AList"
begin

section \<open>The parking management system (parking\_system.py)\<close>

text \<open>
  Conventions of the embedding.
  \<^item> A Python \<open>dict\<close> is an association list in insertion order: \<open>d[k] = v\<close> is
    \<open>AList.update\<close> (overwrite in place, or append), \<open>d.pop(k)\<close> is \<open>AList.delete\<close>,
    \<open>k in d\<close> and \<open>d.get(k)\<close> are \<open>map_of\<close>, \<open>len(d)\<close> is \<open>length\<close>.
  \<^item> A method of an object returns a triple: its outcome (\<open>Inl e\<close> when it raises
    \<open>e\<close>, \<open>Inr v\<close> when it returns \<open>v\<close>), the object after the call, and the lines it
    printed, in order.
  \<^item> \<open>datetime.datetime.now()\<close> is an argument \<open>now\<close> of the method that reads the clock;
    a \<open>datetime\<close> is a number of microseconds.
  \<^item> Python floats are modelled by real numbers (rounding is not modelled).
  \<^item> Strings are ASCII: \<open>upper\<close> and \<open>lower\<close> change the 26 ASCII letters only.
  \<^item> A printed line is a value of the type \<open>event\<close> that keeps the data the line shows.
\<close>

subsection \<open>Exceptions\<close>

datatype error =
    ParkingError string
  | DuplicatePlateError string
  | FullLotError string
  | VehicleNotParkedError string
  | ValueError string
  | KeyError string
  | AttributeError string
  | EOFError

text \<open>\<open>except ParkingError\<close> catches the base class and its three subclasses.\<close>

fun is_ParkingError :: "error \<Rightarrow> bool" where
  "is_ParkingError (ParkingError m) = True"
| "is_ParkingError (DuplicatePlateError m) = True"
| "is_ParkingError (FullLotError m) = True"
| "is_ParkingError (VehicleNotParkedError m) = True"
| "is_ParkingError e = False"

fun is_ValueError :: "error \<Rightarrow> bool" where
  "is_ValueError (ValueError m) = True"
| "is_ValueError e = False"

subsection \<open>Strings\<close>

definition upper_char :: "char \<Rightarrow> char" where
  "upper_char c =
     (let n = (of_char c :: nat) in if 97 \<le> n \<and> n \<le> 122 then char_of (n - 32) else c)"

definition lower_char :: "char \<Rightarrow> char" where
  "lower_char c =
     (let n = (of_char c :: nat) in if 65 \<le> n \<and> n \<le> 90 then char_of (n + 32) else c)"

definition upper :: "string \<Rightarrow> string" where
  "upper s = map upper_char s"

definition lower :: "string \<Rightarrow> string" where
  "lower s = map lower_char s"

text \<open>\<open>s.replace(" ", "")\<close>\<close>

definition remove_spaces :: "string \<Rightarrow> string" where
  "remove_spaces s = filter (\<lambda>c. c \<noteq> CHR '' '') s"

text \<open>\<open>plate.upper().replace(" ", "")\<close>, the normalisation every method starts with.\<close>

definition clean_plate :: "string \<Rightarrow> string" where
  "clean_plate plate = remove_spaces (upper plate)"

subsection \<open>Vehicle and Driver\<close>

type_synonym datetime = int

record Vehicle =
  license_plate :: string
  vehicle_type :: string

definition validate_plate :: "string \<Rightarrow> error + string" where
  "validate_plate plate =
     (if plate = [] then Inl (ValueError ''License plate cannot be empty or invalid.'')
      else Inr (clean_plate plate))"

definition Vehicle_init :: "string \<Rightarrow> string \<Rightarrow> error + Vehicle" where
  "Vehicle_init plate v_type =
     (case validate_plate plate of
        Inl e \<Rightarrow> Inl e
      | Inr p \<Rightarrow> Inr \<lparr>license_plate = p, vehicle_type = v_type\<rparr>)"

record Driver =
  full_name :: string
  driver_id :: string
  vehicle :: Vehicle

definition validate_id :: "string \<Rightarrow> error + string" where
  "validate_id did =
     (if did = [] then Inl (ValueError ''Driver ID cannot be empty.'') else Inr did)"

definition Driver_init :: "string \<Rightarrow> string \<Rightarrow> Vehicle \<Rightarrow> error + Driver" where
  "Driver_init name did v =
     (case validate_id did of
        Inl e \<Rightarrow> Inl e
      | Inr i \<Rightarrow> Inr \<lparr>full_name = name, driver_id = i, vehicle = v\<rparr>)"

subsection \<open>Parking passes\<close>

datatype pass_class = ParkingPass_class | StudentPass_class | StaffPass_class

text \<open>
  The pass identifier is \<open>f"{plate}-{now:%Y%m%d%H%M%S}"\<close>; the model keeps its two
  components instead of formatting the date.
\<close>

record ParkingPass =
  pass_class :: pass_class
  pass_id :: "string \<times> datetime"
  driver :: Driver
  fee_rate :: real

definition STUDENT_RATE :: real where
  "STUDENT_RATE = 2.0"

definition STAFF_RATE :: real where
  "STAFF_RATE = 3.0"

definition ParkingPass_init :: "string \<times> datetime \<Rightarrow> Driver \<Rightarrow> real \<Rightarrow> ParkingPass" where
  "ParkingPass_init pid d rate =
     \<lparr>pass_class = ParkingPass_class, pass_id = pid, driver = d, fee_rate = rate\<rparr>"

definition StudentPass :: "string \<times> datetime \<Rightarrow> Driver \<Rightarrow> ParkingPass" where
  "StudentPass pid d = (ParkingPass_init pid d STUDENT_RATE)\<lparr>pass_class := StudentPass_class\<rparr>"

definition StaffPass :: "string \<times> datetime \<Rightarrow> Driver \<Rightarrow> ParkingPass" where
  "StaffPass pid d = (ParkingPass_init pid d STAFF_RATE)\<lparr>pass_class := StaffPass_class\<rparr>"

text \<open>\<open>ParkingPass.calculate_fee\<close>, which \<open>StudentPass.calculate_fee\<close> calls through \<open>super()\<close>.\<close>

definition base_calculate_fee :: "ParkingPass \<Rightarrow> real \<Rightarrow> error + real" where
  "base_calculate_fee p hours_parked =
     (if hours_parked < 0 then Inl (ValueError ''Parked hours cannot be negative.'')
      else Inr (hours_parked * fee_rate p))"

definition staff_calculate_fee :: "ParkingPass \<Rightarrow> real \<Rightarrow> error + real" where
  "staff_calculate_fee p hours_parked =
     (if hours_parked < 0 then Inl (ValueError ''Parked hours cannot be negative.'')
      else if hours_parked \<le> 1.0 then Inr 0.0
      else (let chargeable_hours = hours_parked - 1.0 in Inr (chargeable_hours * fee_rate p)))"

text \<open>The polymorphic call \<open>parking_pass.calculate_fee(hours)\<close>: dispatch on the class.\<close>

definition calculate_fee :: "ParkingPass \<Rightarrow> real \<Rightarrow> error + real" where
  "calculate_fee p hours_parked =
     (case pass_class p of
        ParkingPass_class \<Rightarrow> base_calculate_fee p hours_parked
      | StudentPass_class \<Rightarrow> base_calculate_fee p hours_parked
      | StaffPass_class \<Rightarrow> staff_calculate_fee p hours_parked)"

text \<open>\<open>__class__.__name__\<close>\<close>

fun class_name :: "pass_class \<Rightarrow> string" where
  "class_name ParkingPass_class = ''ParkingPass''"
| "class_name StudentPass_class = ''StudentPass''"
| "class_name StaffPass_class = ''StaffPass''"

subsection \<open>Printed lines\<close>

datatype event =
    ParkedLine string
  | RemovedLine string
  | RegisteredLine Driver
  | PassIssuedLine ParkingPass
  | ParkingFailedLine error
  | RemovalFailedLine error
  | UnexpectedErrorLine error
  | ExitInfoLines string datetime datetime real pass_class real real
  | ActivePassesHeader
  | NoActivePassesLine
  | ActivePassLine string "string \<times> datetime" pass_class string bool
  | ActivePassesFooter
  | MenuLines nat int
  | SectionHeader string
  | GoodbyeLines
  | InvalidChoiceLine
  | OperationErrorLine error
  | GeneralErrorLine error

subsection \<open>ParkingLot\<close>

record ParkingLot =
  name :: string
  capacity :: int
  parked_vehicles :: "(string \<times> datetime) list"

definition validate_capacity :: "int \<Rightarrow> error + int" where
  "validate_capacity cap =
     (if cap \<le> 0 then Inl (ValueError ''Capacity must be a positive integer.'') else Inr cap)"

definition ParkingLot_init :: "string \<Rightarrow> int \<Rightarrow> error + ParkingLot" where
  "ParkingLot_init nm cap =
     (case validate_capacity cap of
        Inl e \<Rightarrow> Inl e
      | Inr c \<Rightarrow> Inr \<lparr>name = nm, capacity = c, parked_vehicles = []\<rparr>)"

definition is_full :: "ParkingLot \<Rightarrow> bool" where
  "is_full l = (int (length (parked_vehicles l)) \<ge> capacity l)"

definition is_parked :: "ParkingLot \<Rightarrow> string \<Rightarrow> bool" where
  "is_parked l plate = (map_of (parked_vehicles l) (clean_plate plate) \<noteq> None)"

definition add_vehicle ::
  "ParkingLot \<Rightarrow> string \<Rightarrow> datetime \<Rightarrow> (error + unit) \<times> ParkingLot \<times> event list" where
  "add_vehicle l plate0 now =
     (let plate = clean_plate plate0 in
      if is_full l then
        (Inl (FullLotError (''ERROR: '' @ [CHR 0x27] @ name l @ [CHR 0x27]
                @ '' parking lot is full. Capacity reached.'')), l, [])
      else if is_parked l plate then
        (Inl (ParkingError (''ERROR: Vehicle with plate ('' @ plate @ '') is already parked.'')),
         l, [])
      else
        (Inr (), l\<lparr>parked_vehicles := AList.update plate now (parked_vehicles l)\<rparr>,
         [ParkedLine plate]))"

definition remove_vehicle ::
  "ParkingLot \<Rightarrow> string \<Rightarrow> (error + datetime) \<times> ParkingLot \<times> event list" where
  "remove_vehicle l plate0 =
     (let plate = clean_plate plate0 in
      if \<not> is_parked l plate then
        (Inl (VehicleNotParkedError (''ERROR: Vehicle with plate ('' @ plate
                @ '') not found among parked vehicles.'')), l, [])
      else
        (case map_of (parked_vehicles l) plate of
           None \<Rightarrow> (Inl (KeyError plate), l, [])
         | Some entry_time \<Rightarrow>
             (Inr entry_time, l\<lparr>parked_vehicles := AList.delete plate (parked_vehicles l)\<rparr>,
              [RemovedLine plate])))"

definition get_parked_plates :: "ParkingLot \<Rightarrow> string list" where
  "get_parked_plates l = map fst (parked_vehicles l)"

text \<open>
  A caller of the lot: one operation of a sequence, each \<open>add_vehicle\<close> with the clock's
  value at that call. An operation that raises leaves the caller with the lot as the
  method left it.
\<close>

datatype lot_op =
    AddVehicle string datetime
  | RemoveVehicle string
  | IsFull
  | IsParked string
  | GetParkedPlates

fun lot_step :: "ParkingLot \<Rightarrow> lot_op \<Rightarrow> ParkingLot" where
  "lot_step l (AddVehicle plate now) = fst (snd (add_vehicle l plate now))"
| "lot_step l (RemoveVehicle plate) = fst (snd (remove_vehicle l plate))"
| "lot_step l IsFull = (let r = is_full l in l)"
| "lot_step l (IsParked plate) = (let r = is_parked l plate in l)"
| "lot_step l GetParkedPlates = (let r = get_parked_plates l in l)"

fun lot_run :: "ParkingLot \<Rightarrow> lot_op list \<Rightarrow> ParkingLot" where
  "lot_run l [] = l"
| "lot_run l (op # ops) = lot_run (lot_step l op) ops"

subsection \<open>ParkingSystem\<close>

record ParkingSystem =
  parking_lot :: ParkingLot
  registered_drivers :: "(string \<times> Driver) list"
  issued_passes :: "(string \<times> ParkingPass) list"

definition ParkingSystem_init :: "string \<Rightarrow> int \<Rightarrow> error + ParkingSystem" where
  "ParkingSystem_init lot_name lot_capacity =
     (case ParkingLot_init lot_name lot_capacity of
        Inl e \<Rightarrow> Inl e
      | Inr l \<Rightarrow> Inr \<lparr>parking_lot = l, registered_drivers = [], issued_passes = []\<rparr>)"

definition get_driver_by_plate :: "ParkingSystem \<Rightarrow> string \<Rightarrow> error + Driver" where
  "get_driver_by_plate s plate =
     (let clean = clean_plate plate in
      case map_of (registered_drivers s) clean of
        None \<Rightarrow> Inl (ParkingError (''ERROR: No driver or pass registered for plate ('' @ clean
                  @ ''). Registration is required first!''))
      | Some d \<Rightarrow> Inr d)"

definition register_driver_and_vehicle ::
  "ParkingSystem \<Rightarrow> string \<Rightarrow> string \<Rightarrow> string \<Rightarrow> string
     \<Rightarrow> (error + unit) \<times> ParkingSystem \<times> event list" where
  "register_driver_and_vehicle s nm did plate0 v_type =
     (let plate = clean_plate plate0 in
      if map_of (registered_drivers s) plate \<noteq> None then
        (Inl (DuplicatePlateError (''ERROR: Plate ('' @ plate
                @ '') is already registered in the system.'')), s, [])
      else
        (case Vehicle_init plate v_type of
           Inl e \<Rightarrow> (Inl e, s, [])
         | Inr v \<Rightarrow>
             (case Driver_init nm did v of
                Inl e \<Rightarrow> (Inl e, s, [])
              | Inr d \<Rightarrow>
                  (Inr (), s\<lparr>registered_drivers := AList.update plate d (registered_drivers s)\<rparr>,
                   [RegisteredLine d]))))"

definition issue_pass ::
  "ParkingSystem \<Rightarrow> string \<Rightarrow> string \<Rightarrow> datetime
     \<Rightarrow> (error + unit) \<times> ParkingSystem \<times> event list" where
  "issue_pass s plate0 pass_type now =
     (let plate = clean_plate plate0 in
      case get_driver_by_plate s plate of
        Inl e \<Rightarrow> (Inl e, s, [])
      | Inr d \<Rightarrow>
          (case map_of (issued_passes s) plate of
             Some old \<Rightarrow>
               (Inl (ParkingError (''ERROR: A '' @ class_name (pass_class old)
                       @ '' pass has already been issued for plate ('' @ plate @ '').'')), s, [])
           | None \<Rightarrow>
               (let pid = (plate, now) in
                if lower pass_type = ''student'' then
                  (let new_pass = StudentPass pid d in
                   (Inr (), s\<lparr>issued_passes := AList.update plate new_pass (issued_passes s)\<rparr>,
                    [PassIssuedLine new_pass]))
                else if lower pass_type = ''staff'' then
                  (let new_pass = StaffPass pid d in
                   (Inr (), s\<lparr>issued_passes := AList.update plate new_pass (issued_passes s)\<rparr>,
                    [PassIssuedLine new_pass]))
                else
                  (Inl (ValueError (''Invalid pass type. Must be '' @ [CHR 0x27] @ ''student''
                          @ [CHR 0x27] @ '' or '' @ [CHR 0x27] @ ''staff'' @ [CHR 0x27] @ ''.'')),
                   s, []))))"

text \<open>
  \<open>park_vehicle\<close> wraps its body in \<open>try ... except ParkingError\<close>: a parking error of
  the missing-pass check or of \<open>add_vehicle\<close> is printed here and the method returns.
\<close>

definition park_vehicle ::
  "ParkingSystem \<Rightarrow> string \<Rightarrow> datetime \<Rightarrow> (error + unit) \<times> ParkingSystem \<times> event list" where
  "park_vehicle s plate0 now =
     (let plate = clean_plate plate0;
          body =
            (if map_of (issued_passes s) plate = None then
               (Inl (ParkingError (''ERROR: Vehicle with plate ('' @ plate
                       @ '') does not have an active parking pass. ''
                       @ ''An active pass is required for entry.'')), s, [])
             else
               (case add_vehicle (parking_lot s) plate now of
                  (r, l', out) \<Rightarrow> (r, s\<lparr>parking_lot := l'\<rparr>, out)))
      in case body of
           (Inl e, s', out) \<Rightarrow>
             if is_ParkingError e then (Inr (), s', out @ [ParkingFailedLine e])
             else (Inl e, s', out)
         | (Inr u, s', out) \<Rightarrow> (Inr (), s', out))"

text \<open>\<open>parked_duration.total_seconds()\<close> of a difference of two datetimes.\<close>

definition total_seconds :: "int \<Rightarrow> real" where
  "total_seconds d = real_of_int d / 1000000"

text \<open>
  \<open>remove_vehicle_and_fee\<close> wraps its body in \<open>try ... except ParkingError ... except
  Exception\<close>: every exception of the body is printed here and the method returns.
\<close>

definition remove_vehicle_and_fee ::
  "ParkingSystem \<Rightarrow> string \<Rightarrow> datetime option \<Rightarrow> datetime
     \<Rightarrow> (error + unit) \<times> ParkingSystem \<times> event list" where
  "remove_vehicle_and_fee s plate0 entry_time_override now =
     (let plate = clean_plate plate0;
          body =
            (case remove_vehicle (parking_lot s) plate of
               (Inl e, l', out) \<Rightarrow> (Inl e, s\<lparr>parking_lot := l'\<rparr>, out)
             | (Inr entry0, l', out) \<Rightarrow>
                 (let s' = s\<lparr>parking_lot := l'\<rparr>;
                      exit_time = now;
                      entry_time = (case entry_time_override of Some t \<Rightarrow> t | None \<Rightarrow> entry0);
                      parked_duration = exit_time - entry_time;
                      hours_parked = total_seconds parked_duration / 3600.0
                  in case map_of (issued_passes s') plate of
                       None \<Rightarrow>
                         (Inl (AttributeError ''NoneType object has no attribute calculate_fee''),
                          s', out)
                     | Some parking_pass \<Rightarrow>
                         (case calculate_fee parking_pass hours_parked of
                            Inl e \<Rightarrow> (Inl e, s', out)
                          | Inr fee \<Rightarrow>
                              (Inr (), s',
                               out @ [ExitInfoLines plate entry_time exit_time hours_parked
                                        (pass_class parking_pass) (fee_rate parking_pass) fee]))))
      in case body of
           (Inl e, s', out) \<Rightarrow>
             if is_ParkingError e then (Inr (), s', out @ [RemovalFailedLine e])
             else (Inr (), s', out @ [UnexpectedErrorLine e])
         | (Inr u, s', out) \<Rightarrow> (Inr (), s', out))"

text \<open>The loop of \<open>list_active_passes\<close> over \<open>self._issued_passes.items()\<close>.\<close>

fun list_rows ::
  "ParkingSystem \<Rightarrow> (string \<times> ParkingPass) list \<Rightarrow> (error + unit) \<times> event list" where
  "list_rows s [] = (Inr (), [])"
| "list_rows s ((plate, a_pass) # rest) =
     (case map_of (registered_drivers s) plate of
        None \<Rightarrow> (Inl (AttributeError ''NoneType object has no attribute full_name''), [])
      | Some d \<Rightarrow>
          (case list_rows s rest of
             (r, out) \<Rightarrow>
               (r, ActivePassLine plate (pass_id a_pass) (pass_class a_pass) (full_name d)
                     (is_parked (parking_lot s) plate) # out)))"

definition list_active_passes ::
  "ParkingSystem \<Rightarrow> (error + unit) \<times> ParkingSystem \<times> event list" where
  "list_active_passes s =
     (if issued_passes s = [] then (Inr (), s, [ActivePassesHeader, NoActivePassesLine])
      else
        (case list_rows s (issued_passes s) of
           (Inl e, out) \<Rightarrow> (Inl e, s, ActivePassesHeader # out)
         | (Inr u, out) \<Rightarrow> (Inr (), s, ActivePassesHeader # out @ [ActivePassesFooter])))"

subsection \<open>The menu loop\<close>

text \<open>
  One command is the choice typed at the menu together with the answers to the prompts
  of that choice; the loop reads the clock at most once per command.
\<close>

datatype command =
    Choice1 string string string string
  | Choice2 string string
  | Choice3 string
  | Choice4 string
  | Choice5
  | Choice6
  | ChoiceOther

definition show_menu :: "ParkingSystem \<Rightarrow> event" where
  "show_menu s =
     (let parked_count = length (get_parked_plates (parking_lot s))
      in MenuLines parked_count (capacity (parking_lot s)))"

text \<open>The two \<open>except\<close> clauses of the loop body.\<close>

definition loop_handler :: "error \<Rightarrow> event" where
  "loop_handler e =
     (if is_ParkingError e \<or> is_ValueError e then OperationErrorLine e else GeneralErrorLine e)"

definition caught ::
  "string \<Rightarrow> (error + unit) \<times> ParkingSystem \<times> event list \<Rightarrow> ParkingSystem \<times> event list \<times> bool"
  where
  "caught header res =
     (case res of
        (Inl e, s', out) \<Rightarrow> (s', SectionHeader header # out @ [loop_handler e], True)
      | (Inr u, s', out) \<Rightarrow> (s', SectionHeader header # out, True))"

text \<open>
  The body of one iteration after the menu was shown: the new system, the lines printed
  and whether the loop goes on (\<open>False\<close> is the \<open>break\<close> of choice 6).
\<close>

fun menu_body :: "ParkingSystem \<Rightarrow> command \<Rightarrow> datetime \<Rightarrow> ParkingSystem \<times> event list \<times> bool" where
  "menu_body s (Choice1 nm did plate v_type) now =
     caught ''Driver and Vehicle Registration'' (register_driver_and_vehicle s nm did plate v_type)"
| "menu_body s (Choice2 plate pass_type) now =
     caught ''Pass Issuance'' (issue_pass s plate pass_type now)"
| "menu_body s (Choice3 plate) now =
     caught ''Vehicle Parking'' (park_vehicle s plate now)"
| "menu_body s (Choice4 plate) now =
     caught ''Vehicle Removal and Fee Calculation'' (remove_vehicle_and_fee s plate None now)"
| "menu_body s Choice5 now =
     (case list_active_passes s of
        (Inl e, s', out) \<Rightarrow> (s', out @ [loop_handler e], True)
      | (Inr u, s', out) \<Rightarrow> (s', out, True))"
| "menu_body s Choice6 now = (s, [GoodbyeLines], False)"
| "menu_body s ChoiceOther now = (s, [InvalidChoiceLine], True)"

text \<open>
  \<open>run_menu\<close> on the commands typed, each with the clock's value when it runs. When the
  input ends, \<open>input()\<close> in \<open>_show_menu\<close> raises \<open>EOFError\<close> outside the \<open>try\<close>.
\<close>

fun run_menu ::
  "ParkingSystem \<Rightarrow> (command \<times> datetime) list \<Rightarrow> (error + unit) \<times> ParkingSystem \<times> event list"
  where
  "run_menu s [] = (Inl EOFError, s, [show_menu s])"
| "run_menu s ((cmd, now) # rest) =
     (case menu_body s cmd now of
        (s', out, continue) \<Rightarrow>
          if continue then
            (case run_menu s' rest of (r, s'', out') \<Rightarrow> (r, s'', show_menu s # out @ out'))
          else (Inr (), s', show_menu s # out))"

subsection \<open>A caller of the system\<close>

text \<open>
  A sequence of method calls on one \<open>ParkingSystem\<close>, each with the clock's value at
  the call. The caller goes on after a call that raised, with the system as the method
  left it.
\<close>

datatype sys_op =
    Register string string string string
  | IssuePass string string datetime
  | Park string datetime
  | RemoveAndFee string "datetime option" datetime
  | ListActivePasses

fun sys_step :: "ParkingSystem \<Rightarrow> sys_op \<Rightarrow> ParkingSystem" where
  "sys_step s (Register nm did plate v_type) =
     fst (snd (register_driver_and_vehicle s nm did plate v_type))"
| "sys_step s (IssuePass plate pass_type now) = fst (snd (issue_pass s plate pass_type now))"
| "sys_step s (Park plate now) = fst (snd (park_vehicle s plate now))"
| "sys_step s (RemoveAndFee plate entry_time_override now) =
     fst (snd (remove_vehicle_and_fee s plate entry_time_override now))"
| "sys_step s ListActivePasses = fst (snd (list_active_passes s))"

fun sys_run :: "ParkingSystem \<Rightarrow> sys_op list \<Rightarrow> ParkingSystem" where
  "sys_run s [] = s"
| "sys_run s (op # ops) = sys_run (sys_step s op) ops"

section \<open>Properties\<close>

subsection \<open>Plate normalisation and dictionaries\<close>

lemma upper_char_idem: "upper_char (upper_char c) = upper_char c"
proof (cases "97 \<le> (of_char c :: nat) \<and> (of_char c :: nat) \<le> 122")
  case True
  then have "(of_char c :: nat) - 32 < 256"
    by arith
  then have "((of_char c :: nat) - 32) mod 256 = of_char c - 32"
    by (rule mod_less)
  moreover from True have "\<not> 97 \<le> (of_char c :: nat) - 32"
    by arith
  ultimately show ?thesis
    using True by (simp add: upper_char_def Let_def)
next
  case False
  then have "upper_char c = c"
    unfolding upper_char_def Let_def by (simp only: if_False)
  then show ?thesis
    by simp
qed

lemma clean_plate_idem: "clean_plate (clean_plate p) = clean_plate p"
  by (induction p) (simp_all add: clean_plate_def upper_def remove_spaces_def upper_char_idem)

lemma is_parked_clean: "is_parked l (clean_plate p) = is_parked l p"
  by (simp add: is_parked_def clean_plate_idem)

lemma update_fresh: "map_of al k = None \<Longrightarrow> AList.update k v al = al @ [(k, v)]"
  by (induction al) (auto split: if_splits)

subsection \<open>Fees\<close>

text \<open>
  C1. For every number of hours \<open>h \<ge> 0\<close>, the fee of a student pass is \<open>h * 2.0\<close> and the
  fee of a staff pass is \<open>max(0, h - 1) * 3.0\<close>.
\<close>

theorem calculate_fee_nonnegative_hours:
  "0 \<le> h \<Longrightarrow>
     calculate_fee (StudentPass pid d) h = Inr (h * 2.0) \<and>
     calculate_fee (StaffPass pid d) h = Inr (max 0 (h - 1) * 3.0)"
  by (simp add: calculate_fee_def StudentPass_def StaffPass_def ParkingPass_init_def
      base_calculate_fee_def staff_calculate_fee_def STUDENT_RATE_def STAFF_RATE_def max_def)

theorem calculate_fee_nonnegative_hours_witness:
  "(0::real) \<le> 3 \<and>
     calculate_fee (StudentPass (''AA11'', 0)
        \<lparr>full_name = ''Ada'', driver_id = ''7'',
         vehicle = \<lparr>license_plate = ''AA11'', vehicle_type = ''car''\<rparr>\<rparr>) 3 = Inr 6 \<and>
     calculate_fee (StaffPass (''AA11'', 0)
        \<lparr>full_name = ''Ada'', driver_id = ''7'',
         vehicle = \<lparr>license_plate = ''AA11'', vehicle_type = ''car''\<rparr>\<rparr>) 3 = Inr 6"
  using calculate_fee_nonnegative_hours [of 3 "(''AA11'', 0)"
        "\<lparr>full_name = ''Ada'', driver_id = ''7'',
         vehicle = \<lparr>license_plate = ''AA11'', vehicle_type = ''car''\<rparr>\<rparr>"]
  by simp

text \<open>
  C6. For every number of hours \<open>h < 0\<close>, \<open>calculate_fee\<close> of a student pass and of a
  staff pass both raise \<open>ValueError\<close> and return no fee.
\<close>

theorem calculate_fee_negative_hours:
  "h < 0 \<Longrightarrow>
     calculate_fee (StudentPass pid d) h = Inl (ValueError ''Parked hours cannot be negative.'') \<and>
     calculate_fee (StaffPass pid d) h = Inl (ValueError ''Parked hours cannot be negative.'')"
  by (simp add: calculate_fee_def StudentPass_def StaffPass_def ParkingPass_init_def
      base_calculate_fee_def staff_calculate_fee_def)

theorem calculate_fee_negative_hours_witness:
  "(- 1 :: real) < 0 \<and>
     calculate_fee (StudentPass (''AA11'', 0)
        \<lparr>full_name = ''Ada'', driver_id = ''7'',
         vehicle = \<lparr>license_plate = ''AA11'', vehicle_type = ''car''\<rparr>\<rparr>) (- 1)
       = Inl (ValueError ''Parked hours cannot be negative.'') \<and>
     calculate_fee (StaffPass (''AA11'', 0)
        \<lparr>full_name = ''Ada'', driver_id = ''7'',
         vehicle = \<lparr>license_plate = ''AA11'', vehicle_type = ''car''\<rparr>\<rparr>) (- 1)
       = Inl (ValueError ''Parked hours cannot be negative.'')"
  using calculate_fee_negative_hours [of "- 1" "(''AA11'', 0)"
        "\<lparr>full_name = ''Ada'', driver_id = ''7'',
         vehicle = \<lparr>license_plate = ''AA11'', vehicle_type = ''car''\<rparr>\<rparr>"]
  by simp

subsection \<open>The parking lot\<close>

text \<open>
  C10. With a capacity \<open>\<le> 0\<close> the constructor of \<open>ParkingLot\<close>, and so that of
  \<open>ParkingSystem\<close>, raises \<open>ValueError\<close>; a lot that was constructed has a capacity
  \<open>> 0\<close>.
\<close>

theorem capacity_must_be_positive:
  "(cap \<le> 0 \<longrightarrow>
      ParkingLot_init nm cap = Inl (ValueError ''Capacity must be a positive integer.'') \<and>
      ParkingSystem_init nm cap = Inl (ValueError ''Capacity must be a positive integer.'')) \<and>
   (ParkingLot_init nm cap = Inr l \<longrightarrow> 0 < capacity l) \<and>
   (ParkingSystem_init nm cap = Inr s \<longrightarrow> 0 < capacity (parking_lot s))"
  by (auto simp add: ParkingLot_init_def ParkingSystem_init_def validate_capacity_def
      split: if_splits)

theorem capacity_must_be_positive_witness:
  "((0::int) \<le> 0 \<and>
      ParkingLot_init ''Ostim'' 0 = Inl (ValueError ''Capacity must be a positive integer.'') \<and>
      ParkingSystem_init ''Ostim'' 0 = Inl (ValueError ''Capacity must be a positive integer.'')) \<and>
   (ParkingLot_init ''Ostim'' 10 = Inr \<lparr>name = ''Ostim'', capacity = 10, parked_vehicles = []\<rparr> \<and>
      0 < capacity \<lparr>name = ''Ostim'', capacity = 10, parked_vehicles = []\<rparr>) \<and>
   (ParkingSystem_init ''Ostim'' 10
      = Inr \<lparr>parking_lot = \<lparr>name = ''Ostim'', capacity = 10, parked_vehicles = []\<rparr>,
             registered_drivers = [], issued_passes = []\<rparr> \<and>
      0 < capacity (parking_lot
            \<lparr>parking_lot = \<lparr>name = ''Ostim'', capacity = 10, parked_vehicles = []\<rparr>,
             registered_drivers = [], issued_passes = []\<rparr>))"
  using capacity_must_be_positive [of 0 "''Ostim''"]
    capacity_must_be_positive [of 10 "''Ostim''"
      "\<lparr>name = ''Ostim'', capacity = 10, parked_vehicles = []\<rparr>"
      "\<lparr>parking_lot = \<lparr>name = ''Ostim'', capacity = 10, parked_vehicles = []\<rparr>,
             registered_drivers = [], issued_passes = []\<rparr>"]
  by (simp add: ParkingLot_init_def ParkingSystem_init_def validate_capacity_def)




text \<open>Both lot methods, with the normalisation and the checks written out.\<close>

lemma add_vehicle_unfold:
  "add_vehicle l plate now =
     (if capacity l \<le> int (length (parked_vehicles l)) then
        (Inl (FullLotError (''ERROR: '' @ [CHR 0x27] @ name l @ [CHR 0x27]
                @ '' parking lot is full. Capacity reached.'')), l, [])
      else if map_of (parked_vehicles l) (clean_plate plate) \<noteq> None then
        (Inl (ParkingError (''ERROR: Vehicle with plate ('' @ clean_plate plate
                @ '') is already parked.'')), l, [])
      else (Inr (), l\<lparr>parked_vehicles := parked_vehicles l @ [(clean_plate plate, now)]\<rparr>,
            [ParkedLine (clean_plate plate)]))"
  by (simp add: add_vehicle_def Let_def is_full_def is_parked_def clean_plate_idem update_fresh)

lemma remove_vehicle_unfold:
  "remove_vehicle l plate =
     (case map_of (parked_vehicles l) (clean_plate plate) of
        None \<Rightarrow> (Inl (VehicleNotParkedError (''ERROR: Vehicle with plate ('' @ clean_plate plate
                @ '') not found among parked vehicles.'')), l, [])
      | Some t \<Rightarrow> (Inr t, l\<lparr>parked_vehicles := AList.delete (clean_plate plate) (parked_vehicles l)\<rparr>,
              [RemovedLine (clean_plate plate)]))"
  by (simp add: remove_vehicle_def Let_def is_parked_def clean_plate_idem split: option.splits)

lemma lot_step_keeps_entry:
  assumes "map_of (parked_vehicles l) (clean_plate p) = Some t"
    and "\<forall>q. op = RemoveVehicle q \<longrightarrow> clean_plate q \<noteq> clean_plate p"
  shows "map_of (parked_vehicles (lot_step l op)) (clean_plate p) = Some t"
proof (cases op)
  case (AddVehicle q t')
  with assms(1) show ?thesis
    by (auto simp add: add_vehicle_unfold)
next
  case (RemoveVehicle q)
  with assms show ?thesis
    by (simp add: remove_vehicle_unfold split: option.splits)
qed (use assms(1) in simp_all)

lemma lot_run_keeps_entry:
  "map_of (parked_vehicles l) (clean_plate p) = Some t \<Longrightarrow>
   \<forall>op \<in> set ops. \<forall>q. op = RemoveVehicle q \<longrightarrow> clean_plate q \<noteq> clean_plate p \<Longrightarrow>
   map_of (parked_vehicles (lot_run l ops)) (clean_plate p) = Some t"
proof (induction ops arbitrary: l)
  case Nil
  then show ?case by simp
next
  case (Cons op ops)
  from Cons.prems have "map_of (parked_vehicles (lot_step l op)) (clean_plate p) = Some t"
    by (intro lot_step_keeps_entry) simp_all
  moreover from Cons.prems
  have "\<forall>op \<in> set ops. \<forall>q. op = RemoveVehicle q \<longrightarrow> clean_plate q \<noteq> clean_plate p"
    by simp
  ultimately show ?case
    using Cons.IH by simp
qed

lemma lot_step_capacity: "capacity (lot_step l op) = capacity l"
  by (cases op) (simp_all add: add_vehicle_unfold remove_vehicle_unfold split: option.splits)

lemma lot_step_within_capacity:
  assumes "int (length (parked_vehicles l)) \<le> capacity l"
  shows "int (length (parked_vehicles (lot_step l op))) \<le> capacity l"
proof (cases op)
  case (AddVehicle q t')
  with assms show ?thesis
    by (simp add: add_vehicle_unfold)
next
  case (RemoveVehicle q)
  have "length (AList.delete (clean_plate q) (parked_vehicles l)) \<le> length (parked_vehicles l)"
    by (rule length_delete_le)
  with assms RemoveVehicle show ?thesis
    by (simp add: remove_vehicle_unfold split: option.splits)
qed (use assms in simp_all)

lemma lot_run_within_capacity:
  "int (length (parked_vehicles l)) \<le> capacity l \<Longrightarrow>
   int (length (parked_vehicles (lot_run l ops))) \<le> capacity (lot_run l ops) \<and>
   capacity (lot_run l ops) = capacity l"
proof (induction ops arbitrary: l)
  case Nil
  then show ?case by simp
next
  case (Cons op ops)
  from Cons.prems have "int (length (parked_vehicles (lot_step l op))) \<le> capacity (lot_step l op)"
    by (simp add: lot_step_within_capacity lot_step_capacity)
  from Cons.IH [OF this] show ?case
    by (simp add: lot_step_capacity)
qed

text \<open>
  C4. \<open>add_vehicle\<close> raises \<open>FullLotError\<close> whenever the number of parked vehicles is at
  least the capacity; below capacity it raises a \<open>ParkingError\<close> for a plate that is
  already parked; otherwise it records \<open>now\<close> as the entry time of the plate, as a new
  last entry of the dictionary. The lot is unchanged when it raises.
\<close>

theorem add_vehicle_outcomes:
  "(capacity l \<le> int (length (parked_vehicles l)) \<longrightarrow>
      (\<exists>m. add_vehicle l plate now = (Inl (FullLotError m), l, []))) \<and>
   (int (length (parked_vehicles l)) < capacity l \<and> is_parked l plate \<longrightarrow>
      (\<exists>m. add_vehicle l plate now = (Inl (ParkingError m), l, []))) \<and>
   (int (length (parked_vehicles l)) < capacity l \<and> \<not> is_parked l plate \<longrightarrow>
      (\<exists>l'. add_vehicle l plate now = (Inr (), l', [ParkedLine (clean_plate plate)]) \<and>
         parked_vehicles l' = parked_vehicles l @ [(clean_plate plate, now)] \<and>
         map_of (parked_vehicles l') (clean_plate plate) = Some now \<and>
         name l' = name l \<and> capacity l' = capacity l))"
  by (simp add: add_vehicle_unfold is_parked_def map_add_def)

theorem add_vehicle_outcomes_witness:
  "(capacity \<lparr>name = ''Ostim'', capacity = 1, parked_vehicles = [(''AA11'', 5)]\<rparr>
      \<le> int (length (parked_vehicles
            \<lparr>name = ''Ostim'', capacity = 1, parked_vehicles = [(''AA11'', 5)]\<rparr>)) \<and>
    (\<exists>m. add_vehicle \<lparr>name = ''Ostim'', capacity = 1, parked_vehicles = [(''AA11'', 5)]\<rparr>
            ''BB22'' 7
          = (Inl (FullLotError m),
             \<lparr>name = ''Ostim'', capacity = 1, parked_vehicles = [(''AA11'', 5)]\<rparr>, []))) \<and>
   (is_parked \<lparr>name = ''Ostim'', capacity = 2, parked_vehicles = [(''AA11'', 5)]\<rparr> ''aa 11'' \<and>
    (\<exists>m. add_vehicle \<lparr>name = ''Ostim'', capacity = 2, parked_vehicles = [(''AA11'', 5)]\<rparr>
            ''aa 11'' 7
          = (Inl (ParkingError m),
             \<lparr>name = ''Ostim'', capacity = 2, parked_vehicles = [(''AA11'', 5)]\<rparr>, []))) \<and>
   (\<not> is_parked \<lparr>name = ''Ostim'', capacity = 2, parked_vehicles = [(''AA11'', 5)]\<rparr> ''bb 22'' \<and>
    (\<exists>l'. add_vehicle \<lparr>name = ''Ostim'', capacity = 2, parked_vehicles = [(''AA11'', 5)]\<rparr>
            ''bb 22'' 7
          = (Inr (), l', [ParkedLine (clean_plate ''bb 22'')]) \<and>
          parked_vehicles l' = [(''AA11'', 5), (clean_plate ''bb 22'', 7)]))"
proof -
  have h2: "is_parked \<lparr>name = ''Ostim'', capacity = 2, parked_vehicles = [(''AA11'', 5)]\<rparr> ''aa 11''"
    by code_simp
  have h3: "\<not> is_parked \<lparr>name = ''Ostim'', capacity = 2, parked_vehicles = [(''AA11'', 5)]\<rparr> ''bb 22''"
    by code_simp
  show ?thesis
    using h2 h3
      add_vehicle_outcomes [of "\<lparr>name = ''Ostim'', capacity = 1, parked_vehicles = [(''AA11'', 5)]\<rparr>"
        "''BB22''" 7]
      add_vehicle_outcomes [of "\<lparr>name = ''Ostim'', capacity = 2, parked_vehicles = [(''AA11'', 5)]\<rparr>"
        "''aa 11''" 7]
      add_vehicle_outcomes [of "\<lparr>name = ''Ostim'', capacity = 2, parked_vehicles = [(''AA11'', 5)]\<rparr>"
        "''bb 22''" 7]
    by auto
qed

text \<open>
  C5. \<open>remove_vehicle\<close> raises \<open>VehicleNotParkedError\<close> for a plate that is not in the
  lot and leaves the lot unchanged; for a parked plate it returns the recorded entry
  time and removes that plate and no other. The time returned is the one \<open>add_vehicle\<close>
  recorded, whatever operations ran in between that did not remove the plate.
\<close>

theorem remove_vehicle_outcomes:
  "(\<not> is_parked l plate \<longrightarrow>
      (\<exists>m. remove_vehicle l plate = (Inl (VehicleNotParkedError m), l, []))) \<and>
   (is_parked l plate \<longrightarrow>
      (\<exists>t l'. map_of (parked_vehicles l) (clean_plate plate) = Some t \<and>
         remove_vehicle l plate = (Inr t, l', [RemovedLine (clean_plate plate)]) \<and>
         map_of (parked_vehicles l') = (map_of (parked_vehicles l))(clean_plate plate := None) \<and>
         get_parked_plates l' = removeAll (clean_plate plate) (get_parked_plates l) \<and>
         name l' = name l \<and> capacity l' = capacity l)) \<and>
   (fst (add_vehicle l plate t0) = Inr () \<and>
    (\<forall>op \<in> set ops. \<forall>q. op = RemoveVehicle q \<longrightarrow> clean_plate q \<noteq> clean_plate plate) \<longrightarrow>
      fst (remove_vehicle (lot_run (fst (snd (add_vehicle l plate t0))) ops) plate) = Inr t0)"
proof (intro conjI impI)
  assume "\<not> is_parked l plate"
  then show "\<exists>m. remove_vehicle l plate = (Inl (VehicleNotParkedError m), l, [])"
    by (simp add: remove_vehicle_unfold is_parked_def)
next
  assume "is_parked l plate"
  then obtain t where t: "map_of (parked_vehicles l) (clean_plate plate) = Some t"
    by (auto simp add: is_parked_def)
  then show "\<exists>t l'. map_of (parked_vehicles l) (clean_plate plate) = Some t \<and>
         remove_vehicle l plate = (Inr t, l', [RemovedLine (clean_plate plate)]) \<and>
         map_of (parked_vehicles l') = (map_of (parked_vehicles l))(clean_plate plate := None) \<and>
         get_parked_plates l' = removeAll (clean_plate plate) (get_parked_plates l) \<and>
         name l' = name l \<and> capacity l' = capacity l"
    by (simp add: remove_vehicle_unfold get_parked_plates_def delete_conv' delete_keys)
next
  assume a: "fst (add_vehicle l plate t0) = Inr () \<and>
    (\<forall>op \<in> set ops. \<forall>q. op = RemoveVehicle q \<longrightarrow> clean_plate q \<noteq> clean_plate plate)"
  then have "map_of (parked_vehicles (fst (snd (add_vehicle l plate t0)))) (clean_plate plate)
      = Some t0"
    by (simp add: add_vehicle_unfold map_add_def split: if_splits)
  with a have "map_of (parked_vehicles (lot_run (fst (snd (add_vehicle l plate t0))) ops))
      (clean_plate plate) = Some t0"
    by (intro lot_run_keeps_entry) simp_all
  then show "fst (remove_vehicle (lot_run (fst (snd (add_vehicle l plate t0))) ops) plate) = Inr t0"
    by (simp add: remove_vehicle_unfold)
qed

theorem remove_vehicle_outcomes_witness:
  "(\<not> is_parked \<lparr>name = ''Ostim'', capacity = 2, parked_vehicles = [(''AA11'', 5)]\<rparr> ''BB22'' \<and>
    (\<exists>m. remove_vehicle \<lparr>name = ''Ostim'', capacity = 2, parked_vehicles = [(''AA11'', 5)]\<rparr>
            ''BB22''
          = (Inl (VehicleNotParkedError m),
             \<lparr>name = ''Ostim'', capacity = 2, parked_vehicles = [(''AA11'', 5)]\<rparr>, []))) \<and>
   (is_parked \<lparr>name = ''Ostim'', capacity = 2, parked_vehicles = [(''AA11'', 5)]\<rparr> ''aa 11'' \<and>
    (\<exists>l'. remove_vehicle \<lparr>name = ''Ostim'', capacity = 2, parked_vehicles = [(''AA11'', 5)]\<rparr>
            ''aa 11''
          = (Inr 5, l', [RemovedLine (clean_plate ''aa 11'')]))) \<and>
   (fst (add_vehicle \<lparr>name = ''Ostim'', capacity = 2, parked_vehicles = []\<rparr> ''aa 11'' 5) = Inr () \<and>
    fst (remove_vehicle
           (lot_run (fst (snd (add_vehicle \<lparr>name = ''Ostim'', capacity = 2, parked_vehicles = []\<rparr>
                                 ''aa 11'' 5)))
              [AddVehicle ''BB22'' 6, IsFull, RemoveVehicle ''BB22''])
           ''aa 11'') = Inr 5)"
proof -
  have h1: "\<not> is_parked \<lparr>name = ''Ostim'', capacity = 2, parked_vehicles = [(''AA11'', 5)]\<rparr> ''BB22''"
    by code_simp
  have h2: "is_parked \<lparr>name = ''Ostim'', capacity = 2, parked_vehicles = [(''AA11'', 5)]\<rparr> ''aa 11''"
    by code_simp
  have k2: "map_of (parked_vehicles \<lparr>name = ''Ostim'', capacity = 2, parked_vehicles = [(''AA11'', 5)]\<rparr>)
      (clean_plate ''aa 11'') = Some 5"
    by code_simp
  have h3: "fst (add_vehicle \<lparr>name = ''Ostim'', capacity = 2, parked_vehicles = []\<rparr> ''aa 11'' 5)
      = Inr ()"
    by code_simp
  have ne: "clean_plate ''BB22'' \<noteq> clean_plate ''aa 11''"
    by code_simp
  have h4: "\<forall>op \<in> set [AddVehicle ''BB22'' 6, IsFull, RemoveVehicle ''BB22''].
       \<forall>q. op = RemoveVehicle q \<longrightarrow> clean_plate q \<noteq> clean_plate ''aa 11''"
    using ne by simp
  show ?thesis
    using h1 h2 k2 h3 h4
      remove_vehicle_outcomes [of "\<lparr>name = ''Ostim'', capacity = 2, parked_vehicles = [(''AA11'', 5)]\<rparr>"
        "''BB22''" 0 "[]"]
      remove_vehicle_outcomes [of "\<lparr>name = ''Ostim'', capacity = 2, parked_vehicles = [(''AA11'', 5)]\<rparr>"
        "''aa 11''" 0 "[]"]
      remove_vehicle_outcomes [of "\<lparr>name = ''Ostim'', capacity = 2, parked_vehicles = []\<rparr>"
        "''aa 11''" 5 "[AddVehicle ''BB22'' 6, IsFull, RemoveVehicle ''BB22'']"]
    by auto
qed

text \<open>
  C7. Starting from a constructed lot, after every sequence of the operations
  \<open>add_vehicle\<close>, \<open>remove_vehicle\<close>, \<open>is_full\<close>, \<open>is_parked\<close> and
  \<open>get_parked_plates\<close> the number of parked vehicles is at most the capacity.
\<close>

theorem parked_count_within_capacity:
  "ParkingLot_init nm cap = Inr l \<Longrightarrow>
     int (length (get_parked_plates (lot_run l ops))) \<le> capacity (lot_run l ops) \<and>
     int (length (parked_vehicles (lot_run l ops))) \<le> capacity (lot_run l ops)"
proof -
  assume "ParkingLot_init nm cap = Inr l"
  then have "int (length (parked_vehicles l)) \<le> capacity l"
    by (auto simp add: ParkingLot_init_def validate_capacity_def split: if_splits)
  then show ?thesis
    using lot_run_within_capacity [of l ops] by (simp add: get_parked_plates_def)
qed

theorem parked_count_within_capacity_witness:
  "ParkingLot_init ''Ostim'' 1 = Inr \<lparr>name = ''Ostim'', capacity = 1, parked_vehicles = []\<rparr> \<and>
   int (length (get_parked_plates
         (lot_run \<lparr>name = ''Ostim'', capacity = 1, parked_vehicles = []\<rparr>
            [AddVehicle ''AA11'' 1, AddVehicle ''BB22'' 2, RemoveVehicle ''AA11'', GetParkedPlates])))
     \<le> capacity
         (lot_run \<lparr>name = ''Ostim'', capacity = 1, parked_vehicles = []\<rparr>
            [AddVehicle ''AA11'' 1, AddVehicle ''BB22'' 2, RemoveVehicle ''AA11'', GetParkedPlates])"
proof -
  have h: "ParkingLot_init ''Ostim'' 1
      = Inr \<lparr>name = ''Ostim'', capacity = 1, parked_vehicles = []\<rparr>"
    by (simp add: ParkingLot_init_def validate_capacity_def)
  show ?thesis
    using h parked_count_within_capacity [OF h,
        of "[AddVehicle ''AA11'' 1, AddVehicle ''BB22'' 2, RemoveVehicle ''AA11'', GetParkedPlates]"]
    by simp
qed

subsection \<open>The parking system\<close>

text \<open>The four methods, with the normalisation and the checks written out.\<close>

lemma register_unfold:
  "register_driver_and_vehicle s nm did plate v_type =
     (if map_of (registered_drivers s) (clean_plate plate) \<noteq> None then
        (Inl (DuplicatePlateError (''ERROR: Plate ('' @ clean_plate plate
                @ '') is already registered in the system.'')), s, [])
      else if clean_plate plate = [] then
        (Inl (ValueError ''License plate cannot be empty or invalid.''), s, [])
      else if did = [] then (Inl (ValueError ''Driver ID cannot be empty.''), s, [])
      else
        (Inr (),
         s\<lparr>registered_drivers := registered_drivers s @
             [(clean_plate plate,
               \<lparr>full_name = nm, driver_id = did,
                vehicle = \<lparr>license_plate = clean_plate plate, vehicle_type = v_type\<rparr>\<rparr>)]\<rparr>,
         [RegisteredLine
            \<lparr>full_name = nm, driver_id = did,
             vehicle = \<lparr>license_plate = clean_plate plate, vehicle_type = v_type\<rparr>\<rparr>]))"
  by (simp add: register_driver_and_vehicle_def Let_def Vehicle_init_def validate_plate_def
      Driver_init_def validate_id_def clean_plate_idem update_fresh)

lemma issue_pass_unfold:
  "issue_pass s plate pass_type now =
     (case map_of (registered_drivers s) (clean_plate plate) of
        None \<Rightarrow>
          (Inl (ParkingError (''ERROR: No driver or pass registered for plate (''
                  @ clean_plate plate @ ''). Registration is required first!'')), s, [])
      | Some d \<Rightarrow>
          (case map_of (issued_passes s) (clean_plate plate) of
             Some old \<Rightarrow>
               (Inl (ParkingError (''ERROR: A '' @ class_name (pass_class old)
                       @ '' pass has already been issued for plate ('' @ clean_plate plate
                       @ '').'')), s, [])
           | None \<Rightarrow>
               if lower pass_type = ''student'' then
                 (Inr (),
                  s\<lparr>issued_passes := issued_passes s
                       @ [(clean_plate plate, StudentPass (clean_plate plate, now) d)]\<rparr>,
                  [PassIssuedLine (StudentPass (clean_plate plate, now) d)])
               else if lower pass_type = ''staff'' then
                 (Inr (),
                  s\<lparr>issued_passes := issued_passes s
                       @ [(clean_plate plate, StaffPass (clean_plate plate, now) d)]\<rparr>,
                  [PassIssuedLine (StaffPass (clean_plate plate, now) d)])
               else
                 (Inl (ValueError (''Invalid pass type. Must be '' @ [CHR 0x27] @ ''student''
                         @ [CHR 0x27] @ '' or '' @ [CHR 0x27] @ ''staff'' @ [CHR 0x27] @ ''.'')),
                  s, [])))"
  by (simp add: issue_pass_def get_driver_by_plate_def Let_def clean_plate_idem update_fresh
      split: option.splits)

lemma park_vehicle_unfold:
  "park_vehicle s plate now =
     (if map_of (issued_passes s) (clean_plate plate) = None then
        (Inr (), s,
         [ParkingFailedLine (ParkingError (''ERROR: Vehicle with plate ('' @ clean_plate plate
            @ '') does not have an active parking pass. ''
            @ ''An active pass is required for entry.''))])
      else
        (case add_vehicle (parking_lot s) plate now of
           (Inl e, l', out) \<Rightarrow> (Inr (), s, [ParkingFailedLine e])
         | (Inr u, l', out) \<Rightarrow> (Inr (), s\<lparr>parking_lot := l'\<rparr>, out)))"
  by (simp add: park_vehicle_def Let_def add_vehicle_unfold clean_plate_idem)

lemma remove_vehicle_and_fee_unfold:
  "remove_vehicle_and_fee s plate entry_time_override now =
     (case map_of (parked_vehicles (parking_lot s)) (clean_plate plate) of
        None \<Rightarrow>
          (Inr (), s,
           [RemovalFailedLine (VehicleNotParkedError (''ERROR: Vehicle with plate (''
              @ clean_plate plate @ '') not found among parked vehicles.''))])
      | Some entry0 \<Rightarrow>
          (let s' = s\<lparr>parking_lot := (parking_lot s)\<lparr>parked_vehicles :=
                      AList.delete (clean_plate plate) (parked_vehicles (parking_lot s))\<rparr>\<rparr>;
               entry_time = (case entry_time_override of Some t \<Rightarrow> t | None \<Rightarrow> entry0);
               hours_parked = total_seconds (now - entry_time) / 3600
           in case map_of (issued_passes s) (clean_plate plate) of
                None \<Rightarrow>
                  (Inr (), s',
                   [RemovedLine (clean_plate plate),
                    UnexpectedErrorLine
                      (AttributeError ''NoneType object has no attribute calculate_fee'')])
              | Some parking_pass \<Rightarrow>
                  (case calculate_fee parking_pass hours_parked of
                     Inl e \<Rightarrow>
                       (Inr (), s',
                        [RemovedLine (clean_plate plate),
                         if is_ParkingError e then RemovalFailedLine e
                         else UnexpectedErrorLine e])
                   | Inr fee \<Rightarrow>
                       (Inr (), s',
                        [RemovedLine (clean_plate plate),
                         ExitInfoLines (clean_plate plate) entry_time now hours_parked
                           (pass_class parking_pass) (fee_rate parking_pass) fee]))))"
  by (simp add: remove_vehicle_and_fee_def Let_def remove_vehicle_unfold clean_plate_idem
      split: option.splits sum.splits)

text \<open>
  C9. After a registration of a plate succeeded, registering the same plate (the same
  after normalisation) again raises \<open>DuplicatePlateError\<close> and leaves the system as it
  was: the plate still maps to the driver and vehicle of the first registration.
\<close>

theorem register_same_plate_twice:
  "register_driver_and_vehicle s nm did plate v_type = (Inr (), s', out) \<and>
   clean_plate plate' = clean_plate plate \<longrightarrow>
     (\<exists>m. register_driver_and_vehicle s' nm' did' plate' v_type'
            = (Inl (DuplicatePlateError m), s', [])) \<and>
     map_of (registered_drivers s') (clean_plate plate)
       = Some \<lparr>full_name = nm, driver_id = did,
               vehicle = \<lparr>license_plate = clean_plate plate, vehicle_type = v_type\<rparr>\<rparr>"
proof (intro impI, elim conjE)
  assume reg: "register_driver_and_vehicle s nm did plate v_type = (Inr (), s', out)"
    and same: "clean_plate plate' = clean_plate plate"
  from reg have entry: "map_of (registered_drivers s') (clean_plate plate)
       = Some \<lparr>full_name = nm, driver_id = did,
               vehicle = \<lparr>license_plate = clean_plate plate, vehicle_type = v_type\<rparr>\<rparr>"
    by (auto simp add: register_unfold map_add_def split: if_splits)
  with same have "\<exists>m. register_driver_and_vehicle s' nm' did' plate' v_type'
            = (Inl (DuplicatePlateError m), s', [])"
    by (simp add: register_unfold)
  with entry show "(\<exists>m. register_driver_and_vehicle s' nm' did' plate' v_type'
            = (Inl (DuplicatePlateError m), s', [])) \<and>
     map_of (registered_drivers s') (clean_plate plate)
       = Some \<lparr>full_name = nm, driver_id = did,
               vehicle = \<lparr>license_plate = clean_plate plate, vehicle_type = v_type\<rparr>\<rparr>"
    by simp
qed

theorem register_same_plate_twice_witness:
  "register_driver_and_vehicle (\<lparr>parking_lot = \<lparr>name = ''Ostim'', capacity = 1, parked_vehicles = []\<rparr>,
      registered_drivers = [], issued_passes = []\<rparr>) ''Ada'' ''7'' ''aa 11'' ''car''
     = (Inr (), (\<lparr>parking_lot = \<lparr>name = ''Ostim'', capacity = 1, parked_vehicles = []\<rparr>,
      registered_drivers = [(''AA11'', \<lparr>full_name = ''Ada'', driver_id = ''7'',
      vehicle = \<lparr>license_plate = ''AA11'', vehicle_type = ''car''\<rparr>\<rparr>)], issued_passes = []\<rparr>), [RegisteredLine (\<lparr>full_name = ''Ada'', driver_id = ''7'',
      vehicle = \<lparr>license_plate = ''AA11'', vehicle_type = ''car''\<rparr>\<rparr>)]) \<and>
   clean_plate ''AA 11'' = clean_plate ''aa 11'' \<and>
   (\<exists>m. register_driver_and_vehicle (\<lparr>parking_lot = \<lparr>name = ''Ostim'', capacity = 1, parked_vehicles = []\<rparr>,
      registered_drivers = [(''AA11'', \<lparr>full_name = ''Ada'', driver_id = ''7'',
      vehicle = \<lparr>license_plate = ''AA11'', vehicle_type = ''car''\<rparr>\<rparr>)], issued_passes = []\<rparr>) ''Bob'' ''8'' ''AA 11'' ''motorcycle''
          = (Inl (DuplicatePlateError m), (\<lparr>parking_lot = \<lparr>name = ''Ostim'', capacity = 1, parked_vehicles = []\<rparr>,
      registered_drivers = [(''AA11'', \<lparr>full_name = ''Ada'', driver_id = ''7'',
      vehicle = \<lparr>license_plate = ''AA11'', vehicle_type = ''car''\<rparr>\<rparr>)], issued_passes = []\<rparr>), [])) \<and>
   map_of (registered_drivers (\<lparr>parking_lot = \<lparr>name = ''Ostim'', capacity = 1, parked_vehicles = []\<rparr>,
      registered_drivers = [(''AA11'', \<lparr>full_name = ''Ada'', driver_id = ''7'',
      vehicle = \<lparr>license_plate = ''AA11'', vehicle_type = ''car''\<rparr>\<rparr>)], issued_passes = []\<rparr>)) (clean_plate ''aa 11'')
     = Some \<lparr>full_name = ''Ada'', driver_id = ''7'',
             vehicle = \<lparr>license_plate = clean_plate ''aa 11'', vehicle_type = ''car''\<rparr>\<rparr>"
proof -
  have h1: "register_driver_and_vehicle (\<lparr>parking_lot = \<lparr>name = ''Ostim'', capacity = 1, parked_vehicles = []\<rparr>,
      registered_drivers = [], issued_passes = []\<rparr>) ''Ada'' ''7'' ''aa 11'' ''car''
     = (Inr (), (\<lparr>parking_lot = \<lparr>name = ''Ostim'', capacity = 1, parked_vehicles = []\<rparr>,
      registered_drivers = [(''AA11'', \<lparr>full_name = ''Ada'', driver_id = ''7'',
      vehicle = \<lparr>license_plate = ''AA11'', vehicle_type = ''car''\<rparr>\<rparr>)], issued_passes = []\<rparr>), [RegisteredLine (\<lparr>full_name = ''Ada'', driver_id = ''7'',
      vehicle = \<lparr>license_plate = ''AA11'', vehicle_type = ''car''\<rparr>\<rparr>)])"
    by code_simp
  have h2: "clean_plate ''AA 11'' = clean_plate ''aa 11''"
    by code_simp
  show ?thesis
    using h1 h2
      register_same_plate_twice [where s = "(\<lparr>parking_lot = \<lparr>name = ''Ostim'', capacity = 1, parked_vehicles = []\<rparr>,
      registered_drivers = [], issued_passes = []\<rparr>)" and nm = "''Ada''" and did = "''7''"
        and plate = "''aa 11''" and v_type = "''car''" and s' = "(\<lparr>parking_lot = \<lparr>name = ''Ostim'', capacity = 1, parked_vehicles = []\<rparr>,
      registered_drivers = [(''AA11'', \<lparr>full_name = ''Ada'', driver_id = ''7'',
      vehicle = \<lparr>license_plate = ''AA11'', vehicle_type = ''car''\<rparr>\<rparr>)], issued_passes = []\<rparr>)"
        and out = "[RegisteredLine (\<lparr>full_name = ''Ada'', driver_id = ''7'',
      vehicle = \<lparr>license_plate = ''AA11'', vehicle_type = ''car''\<rparr>\<rparr>)]" and plate' = "''AA 11''" and nm' = "''Bob''"
        and did' = "''8''" and v_type' = "''motorcycle''"]
    by blast
qed

text \<open>
  C3. \<open>issue_pass\<close> raises a \<open>ParkingError\<close> for a plate that is not registered and
  for a plate that already has a pass; for a registered plate without a pass it raises
  \<open>ValueError\<close> for every pass type that is not \<open>student\<close> or \<open>staff\<close> in any
  letter case; otherwise it records a new student or staff pass for the plate. The system
  is unchanged when it raises.
\<close>

theorem issue_pass_outcomes:
  "(map_of (registered_drivers s) (clean_plate plate) = None \<longrightarrow>
      (\<exists>m. issue_pass s plate pass_type now = (Inl (ParkingError m), s, []))) \<and>
   (map_of (issued_passes s) (clean_plate plate) \<noteq> None \<longrightarrow>
      (\<exists>m. issue_pass s plate pass_type now = (Inl (ParkingError m), s, []))) \<and>
   (map_of (registered_drivers s) (clean_plate plate) \<noteq> None \<and>
    map_of (issued_passes s) (clean_plate plate) = None \<and>
    lower pass_type \<noteq> ''student'' \<and> lower pass_type \<noteq> ''staff'' \<longrightarrow>
      (\<exists>m. issue_pass s plate pass_type now = (Inl (ValueError m), s, []))) \<and>
   (map_of (registered_drivers s) (clean_plate plate) = Some d \<and>
    map_of (issued_passes s) (clean_plate plate) = None \<and> lower pass_type = ''student'' \<longrightarrow>
      (\<exists>s'. issue_pass s plate pass_type now
             = (Inr (), s', [PassIssuedLine (StudentPass (clean_plate plate, now) d)]) \<and>
         issued_passes s'
           = issued_passes s @ [(clean_plate plate, StudentPass (clean_plate plate, now) d)] \<and>
         map_of (issued_passes s') (clean_plate plate)
           = Some (StudentPass (clean_plate plate, now) d) \<and>
         registered_drivers s' = registered_drivers s \<and> parking_lot s' = parking_lot s)) \<and>
   (map_of (registered_drivers s) (clean_plate plate) = Some d \<and>
    map_of (issued_passes s) (clean_plate plate) = None \<and> lower pass_type = ''staff'' \<longrightarrow>
      (\<exists>s'. issue_pass s plate pass_type now
             = (Inr (), s', [PassIssuedLine (StaffPass (clean_plate plate, now) d)]) \<and>
         issued_passes s'
           = issued_passes s @ [(clean_plate plate, StaffPass (clean_plate plate, now) d)] \<and>
         map_of (issued_passes s') (clean_plate plate)
           = Some (StaffPass (clean_plate plate, now) d) \<and>
         registered_drivers s' = registered_drivers s \<and> parking_lot s' = parking_lot s))"
  by (auto simp add: issue_pass_unfold map_add_def split: option.splits)

theorem issue_pass_outcomes_witness:
  "(map_of (registered_drivers (\<lparr>parking_lot = \<lparr>name = ''Ostim'', capacity = 1, parked_vehicles = []\<rparr>,
      registered_drivers = [], issued_passes = []\<rparr>)) (clean_plate ''AA11'') = None \<and>
    (\<exists>m. issue_pass (\<lparr>parking_lot = \<lparr>name = ''Ostim'', capacity = 1, parked_vehicles = []\<rparr>,
      registered_drivers = [], issued_passes = []\<rparr>) ''AA11'' ''student'' 3 = (Inl (ParkingError m), (\<lparr>parking_lot = \<lparr>name = ''Ostim'', capacity = 1, parked_vehicles = []\<rparr>,
      registered_drivers = [], issued_passes = []\<rparr>), []))) \<and>
   (map_of (issued_passes (\<lparr>parking_lot = \<lparr>name = ''Ostim'', capacity = 1, parked_vehicles = []\<rparr>,
      registered_drivers = [(''AA11'', \<lparr>full_name = ''Ada'', driver_id = ''7'',
      vehicle = \<lparr>license_plate = ''AA11'', vehicle_type = ''car''\<rparr>\<rparr>)],
      issued_passes = [(''AA11'', StudentPass (''AA11'', 3) (\<lparr>full_name = ''Ada'', driver_id = ''7'',
      vehicle = \<lparr>license_plate = ''AA11'', vehicle_type = ''car''\<rparr>\<rparr>))]\<rparr>)) (clean_plate ''aa 11'') \<noteq> None \<and>
    (\<exists>m. issue_pass (\<lparr>parking_lot = \<lparr>name = ''Ostim'', capacity = 1, parked_vehicles = []\<rparr>,
      registered_drivers = [(''AA11'', \<lparr>full_name = ''Ada'', driver_id = ''7'',
      vehicle = \<lparr>license_plate = ''AA11'', vehicle_type = ''car''\<rparr>\<rparr>)],
      issued_passes = [(''AA11'', StudentPass (''AA11'', 3) (\<lparr>full_name = ''Ada'', driver_id = ''7'',
      vehicle = \<lparr>license_plate = ''AA11'', vehicle_type = ''car''\<rparr>\<rparr>))]\<rparr>) ''aa 11'' ''staff'' 4 = (Inl (ParkingError m), (\<lparr>parking_lot = \<lparr>name = ''Ostim'', capacity = 1, parked_vehicles = []\<rparr>,
      registered_drivers = [(''AA11'', \<lparr>full_name = ''Ada'', driver_id = ''7'',
      vehicle = \<lparr>license_plate = ''AA11'', vehicle_type = ''car''\<rparr>\<rparr>)],
      issued_passes = [(''AA11'', StudentPass (''AA11'', 3) (\<lparr>full_name = ''Ada'', driver_id = ''7'',
      vehicle = \<lparr>license_plate = ''AA11'', vehicle_type = ''car''\<rparr>\<rparr>))]\<rparr>), []))) \<and>
   (lower ''visitor'' \<noteq> ''student'' \<and> lower ''visitor'' \<noteq> ''staff'' \<and>
    (\<exists>m. issue_pass (\<lparr>parking_lot = \<lparr>name = ''Ostim'', capacity = 1, parked_vehicles = []\<rparr>,
      registered_drivers = [(''AA11'', \<lparr>full_name = ''Ada'', driver_id = ''7'',
      vehicle = \<lparr>license_plate = ''AA11'', vehicle_type = ''car''\<rparr>\<rparr>)], issued_passes = []\<rparr>) ''aa 11'' ''visitor'' 3 = (Inl (ValueError m), (\<lparr>parking_lot = \<lparr>name = ''Ostim'', capacity = 1, parked_vehicles = []\<rparr>,
      registered_drivers = [(''AA11'', \<lparr>full_name = ''Ada'', driver_id = ''7'',
      vehicle = \<lparr>license_plate = ''AA11'', vehicle_type = ''car''\<rparr>\<rparr>)], issued_passes = []\<rparr>), []))) \<and>
   (lower ''STUDENT'' = ''student'' \<and>
    (\<exists>s'. issue_pass (\<lparr>parking_lot = \<lparr>name = ''Ostim'', capacity = 1, parked_vehicles = []\<rparr>,
      registered_drivers = [(''AA11'', \<lparr>full_name = ''Ada'', driver_id = ''7'',
      vehicle = \<lparr>license_plate = ''AA11'', vehicle_type = ''car''\<rparr>\<rparr>)], issued_passes = []\<rparr>) ''aa 11'' ''STUDENT'' 3
           = (Inr (), s', [PassIssuedLine (StudentPass (clean_plate ''aa 11'', 3) (\<lparr>full_name = ''Ada'', driver_id = ''7'',
      vehicle = \<lparr>license_plate = ''AA11'', vehicle_type = ''car''\<rparr>\<rparr>))]) \<and>
       map_of (issued_passes s') (clean_plate ''aa 11'')
         = Some (StudentPass (clean_plate ''aa 11'', 3) (\<lparr>full_name = ''Ada'', driver_id = ''7'',
      vehicle = \<lparr>license_plate = ''AA11'', vehicle_type = ''car''\<rparr>\<rparr>)))) \<and>
   (lower ''Staff'' = ''staff'' \<and>
    (\<exists>s'. issue_pass (\<lparr>parking_lot = \<lparr>name = ''Ostim'', capacity = 1, parked_vehicles = []\<rparr>,
      registered_drivers = [(''AA11'', \<lparr>full_name = ''Ada'', driver_id = ''7'',
      vehicle = \<lparr>license_plate = ''AA11'', vehicle_type = ''car''\<rparr>\<rparr>)], issued_passes = []\<rparr>) ''aa 11'' ''Staff'' 3
           = (Inr (), s', [PassIssuedLine (StaffPass (clean_plate ''aa 11'', 3) (\<lparr>full_name = ''Ada'', driver_id = ''7'',
      vehicle = \<lparr>license_plate = ''AA11'', vehicle_type = ''car''\<rparr>\<rparr>))]) \<and>
       map_of (issued_passes s') (clean_plate ''aa 11'')
         = Some (StaffPass (clean_plate ''aa 11'', 3) (\<lparr>full_name = ''Ada'', driver_id = ''7'',
      vehicle = \<lparr>license_plate = ''AA11'', vehicle_type = ''car''\<rparr>\<rparr>))))"
proof -
  have h1: "map_of (registered_drivers (\<lparr>parking_lot = \<lparr>name = ''Ostim'', capacity = 1, parked_vehicles = []\<rparr>,
      registered_drivers = [], issued_passes = []\<rparr>)) (clean_plate ''AA11'') = None"
    by simp
  have h2: "map_of (issued_passes (\<lparr>parking_lot = \<lparr>name = ''Ostim'', capacity = 1, parked_vehicles = []\<rparr>,
      registered_drivers = [(''AA11'', \<lparr>full_name = ''Ada'', driver_id = ''7'',
      vehicle = \<lparr>license_plate = ''AA11'', vehicle_type = ''car''\<rparr>\<rparr>)],
      issued_passes = [(''AA11'', StudentPass (''AA11'', 3) (\<lparr>full_name = ''Ada'', driver_id = ''7'',
      vehicle = \<lparr>license_plate = ''AA11'', vehicle_type = ''car''\<rparr>\<rparr>))]\<rparr>)) (clean_plate ''aa 11'') \<noteq> None"
    by code_simp
  have h3: "map_of (registered_drivers (\<lparr>parking_lot = \<lparr>name = ''Ostim'', capacity = 1, parked_vehicles = []\<rparr>,
      registered_drivers = [(''AA11'', \<lparr>full_name = ''Ada'', driver_id = ''7'',
      vehicle = \<lparr>license_plate = ''AA11'', vehicle_type = ''car''\<rparr>\<rparr>)], issued_passes = []\<rparr>)) (clean_plate ''aa 11'') = Some (\<lparr>full_name = ''Ada'', driver_id = ''7'',
      vehicle = \<lparr>license_plate = ''AA11'', vehicle_type = ''car''\<rparr>\<rparr>)"
    by code_simp
  have h4: "map_of (issued_passes (\<lparr>parking_lot = \<lparr>name = ''Ostim'', capacity = 1, parked_vehicles = []\<rparr>,
      registered_drivers = [(''AA11'', \<lparr>full_name = ''Ada'', driver_id = ''7'',
      vehicle = \<lparr>license_plate = ''AA11'', vehicle_type = ''car''\<rparr>\<rparr>)], issued_passes = []\<rparr>)) (clean_plate ''aa 11'') = None"
    by simp
  have h5: "lower ''visitor'' \<noteq> ''student'' \<and> lower ''visitor'' \<noteq> ''staff''"
    by code_simp
  have h6: "lower ''STUDENT'' = ''student''"
    by code_simp
  have h7: "lower ''Staff'' = ''staff''"
    by code_simp
  have c1: "\<exists>m. issue_pass (\<lparr>parking_lot = \<lparr>name = ''Ostim'', capacity = 1, parked_vehicles = []\<rparr>,
      registered_drivers = [], issued_passes = []\<rparr>) ''AA11'' ''student'' 3 = (Inl (ParkingError m), (\<lparr>parking_lot = \<lparr>name = ''Ostim'', capacity = 1, parked_vehicles = []\<rparr>,
      registered_drivers = [], issued_passes = []\<rparr>), [])"
    using h1 issue_pass_outcomes [where s = "(\<lparr>parking_lot = \<lparr>name = ''Ostim'', capacity = 1, parked_vehicles = []\<rparr>,
      registered_drivers = [], issued_passes = []\<rparr>)" and plate = "''AA11''"
        and pass_type = "''student''" and now = 3]
    by blast
  have c2: "\<exists>m. issue_pass (\<lparr>parking_lot = \<lparr>name = ''Ostim'', capacity = 1, parked_vehicles = []\<rparr>,
      registered_drivers = [(''AA11'', \<lparr>full_name = ''Ada'', driver_id = ''7'',
      vehicle = \<lparr>license_plate = ''AA11'', vehicle_type = ''car''\<rparr>\<rparr>)],
      issued_passes = [(''AA11'', StudentPass (''AA11'', 3) (\<lparr>full_name = ''Ada'', driver_id = ''7'',
      vehicle = \<lparr>license_plate = ''AA11'', vehicle_type = ''car''\<rparr>\<rparr>))]\<rparr>) ''aa 11'' ''staff'' 4 = (Inl (ParkingError m), (\<lparr>parking_lot = \<lparr>name = ''Ostim'', capacity = 1, parked_vehicles = []\<rparr>,
      registered_drivers = [(''AA11'', \<lparr>full_name = ''Ada'', driver_id = ''7'',
      vehicle = \<lparr>license_plate = ''AA11'', vehicle_type = ''car''\<rparr>\<rparr>)],
      issued_passes = [(''AA11'', StudentPass (''AA11'', 3) (\<lparr>full_name = ''Ada'', driver_id = ''7'',
      vehicle = \<lparr>license_plate = ''AA11'', vehicle_type = ''car''\<rparr>\<rparr>))]\<rparr>), [])"
    using h2 issue_pass_outcomes [where s = "(\<lparr>parking_lot = \<lparr>name = ''Ostim'', capacity = 1, parked_vehicles = []\<rparr>,
      registered_drivers = [(''AA11'', \<lparr>full_name = ''Ada'', driver_id = ''7'',
      vehicle = \<lparr>license_plate = ''AA11'', vehicle_type = ''car''\<rparr>\<rparr>)],
      issued_passes = [(''AA11'', StudentPass (''AA11'', 3) (\<lparr>full_name = ''Ada'', driver_id = ''7'',
      vehicle = \<lparr>license_plate = ''AA11'', vehicle_type = ''car''\<rparr>\<rparr>))]\<rparr>)" and plate = "''aa 11''"
        and pass_type = "''staff''" and now = 4]
    by blast
  have c3: "\<exists>m. issue_pass (\<lparr>parking_lot = \<lparr>name = ''Ostim'', capacity = 1, parked_vehicles = []\<rparr>,
      registered_drivers = [(''AA11'', \<lparr>full_name = ''Ada'', driver_id = ''7'',
      vehicle = \<lparr>license_plate = ''AA11'', vehicle_type = ''car''\<rparr>\<rparr>)], issued_passes = []\<rparr>) ''aa 11'' ''visitor'' 3 = (Inl (ValueError m), (\<lparr>parking_lot = \<lparr>name = ''Ostim'', capacity = 1, parked_vehicles = []\<rparr>,
      registered_drivers = [(''AA11'', \<lparr>full_name = ''Ada'', driver_id = ''7'',
      vehicle = \<lparr>license_plate = ''AA11'', vehicle_type = ''car''\<rparr>\<rparr>)], issued_passes = []\<rparr>), [])"
    using h3 h4 h5 issue_pass_outcomes [where s = "(\<lparr>parking_lot = \<lparr>name = ''Ostim'', capacity = 1, parked_vehicles = []\<rparr>,
      registered_drivers = [(''AA11'', \<lparr>full_name = ''Ada'', driver_id = ''7'',
      vehicle = \<lparr>license_plate = ''AA11'', vehicle_type = ''car''\<rparr>\<rparr>)], issued_passes = []\<rparr>)" and plate = "''aa 11''"
        and pass_type = "''visitor''" and now = 3]
    by auto
  have c4: "\<exists>s'. issue_pass (\<lparr>parking_lot = \<lparr>name = ''Ostim'', capacity = 1, parked_vehicles = []\<rparr>,
      registered_drivers = [(''AA11'', \<lparr>full_name = ''Ada'', driver_id = ''7'',
      vehicle = \<lparr>license_plate = ''AA11'', vehicle_type = ''car''\<rparr>\<rparr>)], issued_passes = []\<rparr>) ''aa 11'' ''STUDENT'' 3
           = (Inr (), s', [PassIssuedLine (StudentPass (clean_plate ''aa 11'', 3) (\<lparr>full_name = ''Ada'', driver_id = ''7'',
      vehicle = \<lparr>license_plate = ''AA11'', vehicle_type = ''car''\<rparr>\<rparr>))]) \<and>
       map_of (issued_passes s') (clean_plate ''aa 11'')
         = Some (StudentPass (clean_plate ''aa 11'', 3) (\<lparr>full_name = ''Ada'', driver_id = ''7'',
      vehicle = \<lparr>license_plate = ''AA11'', vehicle_type = ''car''\<rparr>\<rparr>))"
    using h3 h4 h6 issue_pass_outcomes [where s = "(\<lparr>parking_lot = \<lparr>name = ''Ostim'', capacity = 1, parked_vehicles = []\<rparr>,
      registered_drivers = [(''AA11'', \<lparr>full_name = ''Ada'', driver_id = ''7'',
      vehicle = \<lparr>license_plate = ''AA11'', vehicle_type = ''car''\<rparr>\<rparr>)], issued_passes = []\<rparr>)" and plate = "''aa 11''"
        and pass_type = "''STUDENT''" and now = 3 and d = "(\<lparr>full_name = ''Ada'', driver_id = ''7'',
      vehicle = \<lparr>license_plate = ''AA11'', vehicle_type = ''car''\<rparr>\<rparr>)"]
    by blast
  have c5: "\<exists>s'. issue_pass (\<lparr>parking_lot = \<lparr>name = ''Ostim'', capacity = 1, parked_vehicles = []\<rparr>,
      registered_drivers = [(''AA11'', \<lparr>full_name = ''Ada'', driver_id = ''7'',
      vehicle = \<lparr>license_plate = ''AA11'', vehicle_type = ''car''\<rparr>\<rparr>)], issued_passes = []\<rparr>) ''aa 11'' ''Staff'' 3
           = (Inr (), s', [PassIssuedLine (StaffPass (clean_plate ''aa 11'', 3) (\<lparr>full_name = ''Ada'', driver_id = ''7'',
      vehicle = \<lparr>license_plate = ''AA11'', vehicle_type = ''car''\<rparr>\<rparr>))]) \<and>
       map_of (issued_passes s') (clean_plate ''aa 11'')
         = Some (StaffPass (clean_plate ''aa 11'', 3) (\<lparr>full_name = ''Ada'', driver_id = ''7'',
      vehicle = \<lparr>license_plate = ''AA11'', vehicle_type = ''car''\<rparr>\<rparr>))"
    using h3 h4 h7 issue_pass_outcomes [where s = "(\<lparr>parking_lot = \<lparr>name = ''Ostim'', capacity = 1, parked_vehicles = []\<rparr>,
      registered_drivers = [(''AA11'', \<lparr>full_name = ''Ada'', driver_id = ''7'',
      vehicle = \<lparr>license_plate = ''AA11'', vehicle_type = ''car''\<rparr>\<rparr>)], issued_passes = []\<rparr>)" and plate = "''aa 11''"
        and pass_type = "''Staff''" and now = 3 and d = "(\<lparr>full_name = ''Ada'', driver_id = ''7'',
      vehicle = \<lparr>license_plate = ''AA11'', vehicle_type = ''car''\<rparr>\<rparr>)"]
    by blast
  show ?thesis
    using h1 h2 h5 h6 h7 c1 c2 c3 c4 c5 by blast
qed

text \<open>
  C2 as stated fails: on a system with no pass issued, \<open>park_vehicle\<close> returns normally,
  having printed the error itself; no exception leaves the method.
\<close>

theorem park_error_propagates_counterexample:
  "park_vehicle (\<lparr>parking_lot = \<lparr>name = ''Ostim'', capacity = 1, parked_vehicles = []\<rparr>,
      registered_drivers = [], issued_passes = []\<rparr>) ''AA11'' 0
   = (Inr (), (\<lparr>parking_lot = \<lparr>name = ''Ostim'', capacity = 1, parked_vehicles = []\<rparr>,
      registered_drivers = [], issued_passes = []\<rparr>),
      [ParkingFailedLine (ParkingError (''ERROR: Vehicle with plate (AA11) does not have an ''
         @ ''active parking pass. An active pass is required for entry.''))])"
  by code_simp

text \<open>
  C2, as amended. For a plate without an issued pass the parking error is raised and
  caught inside \<open>park_vehicle\<close>, which prints it and returns normally with the system
  unchanged; the menu loop has nothing to catch and goes on. \<open>park_vehicle\<close> and
  \<open>remove_vehicle_and_fee\<close> never raise. The errors of \<open>register_driver_and_vehicle\<close>
  and \<open>issue_pass\<close> do leave the method: the menu loop catches them, prints them as an
  operation error and goes on; only choice 6 ends the loop.
\<close>

theorem park_error_caught_in_method:
  "(map_of (issued_passes s) (clean_plate plate) = None \<longrightarrow>
      (\<exists>m. park_vehicle s plate now = (Inr (), s, [ParkingFailedLine (ParkingError m)]) \<and>
         menu_body s (Choice3 plate) now
           = (s, [SectionHeader ''Vehicle Parking'', ParkingFailedLine (ParkingError m)], True) \<and>
         run_menu s ((Choice3 plate, now) # rest)
           = (case run_menu s rest of
                (r, s', out) \<Rightarrow>
                  (r, s', show_menu s # SectionHeader ''Vehicle Parking''
                            # ParkingFailedLine (ParkingError m) # out)))) \<and>
   fst (park_vehicle s plate now) = Inr () \<and>
   fst (remove_vehicle_and_fee s plate entry_time_override now) = Inr () \<and>
   (fst (register_driver_and_vehicle s nm did plate v_type) = Inl e \<longrightarrow>
      menu_body s (Choice1 nm did plate v_type) now
        = (s, [SectionHeader ''Driver and Vehicle Registration'', OperationErrorLine e], True)) \<and>
   (fst (issue_pass s plate pass_type now) = Inl e \<longrightarrow>
      menu_body s (Choice2 plate pass_type) now
        = (s, [SectionHeader ''Pass Issuance'', OperationErrorLine e], True)) \<and>
   snd (snd (menu_body s cmd now)) = (cmd \<noteq> Choice6)"
proof (intro conjI impI)
  assume "map_of (issued_passes s) (clean_plate plate) = None"
  then show "\<exists>m. park_vehicle s plate now = (Inr (), s, [ParkingFailedLine (ParkingError m)]) \<and>
         menu_body s (Choice3 plate) now
           = (s, [SectionHeader ''Vehicle Parking'', ParkingFailedLine (ParkingError m)], True) \<and>
         run_menu s ((Choice3 plate, now) # rest)
           = (case run_menu s rest of
                (r, s', out) \<Rightarrow>
                  (r, s', show_menu s # SectionHeader ''Vehicle Parking''
                            # ParkingFailedLine (ParkingError m) # out))"
    by (simp add: park_vehicle_unfold caught_def)
next
  show "fst (park_vehicle s plate now) = Inr ()"
    by (simp add: park_vehicle_unfold split: prod.splits sum.splits)
next
  show "fst (remove_vehicle_and_fee s plate entry_time_override now) = Inr ()"
    by (simp add: remove_vehicle_and_fee_unfold Let_def split: option.splits sum.splits)
next
  assume "fst (register_driver_and_vehicle s nm did plate v_type) = Inl e"
  then show "menu_body s (Choice1 nm did plate v_type) now
        = (s, [SectionHeader ''Driver and Vehicle Registration'', OperationErrorLine e], True)"
    by (auto simp add: register_unfold caught_def loop_handler_def split: if_splits)
next
  assume "fst (issue_pass s plate pass_type now) = Inl e"
  then show "menu_body s (Choice2 plate pass_type) now
        = (s, [SectionHeader ''Pass Issuance'', OperationErrorLine e], True)"
    by (auto simp add: issue_pass_unfold caught_def loop_handler_def
        split: option.splits if_splits)
next
  show "snd (snd (menu_body s cmd now)) = (cmd \<noteq> Choice6)"
    by (cases cmd) (simp_all add: caught_def split: prod.splits sum.splits)
qed

theorem park_error_caught_in_method_witness:
  "map_of (issued_passes (\<lparr>parking_lot = \<lparr>name = ''Ostim'', capacity = 1, parked_vehicles = []\<rparr>,
      registered_drivers = [], issued_passes = []\<rparr>)) (clean_plate ''AA11'') = None \<and>
   (\<exists>m. park_vehicle (\<lparr>parking_lot = \<lparr>name = ''Ostim'', capacity = 1, parked_vehicles = []\<rparr>,
      registered_drivers = [], issued_passes = []\<rparr>) ''AA11'' 0 = (Inr (), (\<lparr>parking_lot = \<lparr>name = ''Ostim'', capacity = 1, parked_vehicles = []\<rparr>,
      registered_drivers = [], issued_passes = []\<rparr>), [ParkingFailedLine (ParkingError m)]) \<and>
      menu_body (\<lparr>parking_lot = \<lparr>name = ''Ostim'', capacity = 1, parked_vehicles = []\<rparr>,
      registered_drivers = [], issued_passes = []\<rparr>) (Choice3 ''AA11'') 0
        = ((\<lparr>parking_lot = \<lparr>name = ''Ostim'', capacity = 1, parked_vehicles = []\<rparr>,
      registered_drivers = [], issued_passes = []\<rparr>), [SectionHeader ''Vehicle Parking'', ParkingFailedLine (ParkingError m)], True)) \<and>
   fst (register_driver_and_vehicle (\<lparr>parking_lot = \<lparr>name = ''Ostim'', capacity = 1, parked_vehicles = []\<rparr>,
      registered_drivers = [(''AA11'', \<lparr>full_name = ''Ada'', driver_id = ''7'',
      vehicle = \<lparr>license_plate = ''AA11'', vehicle_type = ''car''\<rparr>\<rparr>)], issued_passes = []\<rparr>) ''Bob'' ''8'' ''aa 11'' ''car'')
     = Inl (DuplicatePlateError ''ERROR: Plate (AA11) is already registered in the system.'') \<and>
   menu_body (\<lparr>parking_lot = \<lparr>name = ''Ostim'', capacity = 1, parked_vehicles = []\<rparr>,
      registered_drivers = [(''AA11'', \<lparr>full_name = ''Ada'', driver_id = ''7'',
      vehicle = \<lparr>license_plate = ''AA11'', vehicle_type = ''car''\<rparr>\<rparr>)], issued_passes = []\<rparr>) (Choice1 ''Bob'' ''8'' ''aa 11'' ''car'') 0
     = ((\<lparr>parking_lot = \<lparr>name = ''Ostim'', capacity = 1, parked_vehicles = []\<rparr>,
      registered_drivers = [(''AA11'', \<lparr>full_name = ''Ada'', driver_id = ''7'',
      vehicle = \<lparr>license_plate = ''AA11'', vehicle_type = ''car''\<rparr>\<rparr>)], issued_passes = []\<rparr>), [SectionHeader ''Driver and Vehicle Registration'',
          OperationErrorLine
            (DuplicatePlateError ''ERROR: Plate (AA11) is already registered in the system.'')],
        True) \<and>
   fst (issue_pass (\<lparr>parking_lot = \<lparr>name = ''Ostim'', capacity = 1, parked_vehicles = []\<rparr>,
      registered_drivers = [], issued_passes = []\<rparr>) ''AA11'' ''student'' 0)
     = Inl (ParkingError (''ERROR: No driver or pass registered for plate (AA11). ''
         @ ''Registration is required first!'')) \<and>
   menu_body (\<lparr>parking_lot = \<lparr>name = ''Ostim'', capacity = 1, parked_vehicles = []\<rparr>,
      registered_drivers = [], issued_passes = []\<rparr>) (Choice2 ''AA11'' ''student'') 0
     = ((\<lparr>parking_lot = \<lparr>name = ''Ostim'', capacity = 1, parked_vehicles = []\<rparr>,
      registered_drivers = [], issued_passes = []\<rparr>), [SectionHeader ''Pass Issuance'',
          OperationErrorLine (ParkingError (''ERROR: No driver or pass registered for plate (AA11). ''
            @ ''Registration is required first!''))],
        True)"
proof -
  have h1: "map_of (issued_passes (\<lparr>parking_lot = \<lparr>name = ''Ostim'', capacity = 1, parked_vehicles = []\<rparr>,
      registered_drivers = [], issued_passes = []\<rparr>)) (clean_plate ''AA11'') = None"
    by simp
  have h2: "fst (register_driver_and_vehicle (\<lparr>parking_lot = \<lparr>name = ''Ostim'', capacity = 1, parked_vehicles = []\<rparr>,
      registered_drivers = [(''AA11'', \<lparr>full_name = ''Ada'', driver_id = ''7'',
      vehicle = \<lparr>license_plate = ''AA11'', vehicle_type = ''car''\<rparr>\<rparr>)], issued_passes = []\<rparr>) ''Bob'' ''8'' ''aa 11'' ''car'')
     = Inl (DuplicatePlateError ''ERROR: Plate (AA11) is already registered in the system.'')"
    by code_simp
  have h3: "fst (issue_pass (\<lparr>parking_lot = \<lparr>name = ''Ostim'', capacity = 1, parked_vehicles = []\<rparr>,
      registered_drivers = [], issued_passes = []\<rparr>) ''AA11'' ''student'' 0)
     = Inl (ParkingError (''ERROR: No driver or pass registered for plate (AA11). ''
         @ ''Registration is required first!''))"
    by code_simp
  have c1: "\<exists>m. park_vehicle (\<lparr>parking_lot = \<lparr>name = ''Ostim'', capacity = 1, parked_vehicles = []\<rparr>,
      registered_drivers = [], issued_passes = []\<rparr>) ''AA11'' 0 = (Inr (), (\<lparr>parking_lot = \<lparr>name = ''Ostim'', capacity = 1, parked_vehicles = []\<rparr>,
      registered_drivers = [], issued_passes = []\<rparr>), [ParkingFailedLine (ParkingError m)]) \<and>
      menu_body (\<lparr>parking_lot = \<lparr>name = ''Ostim'', capacity = 1, parked_vehicles = []\<rparr>,
      registered_drivers = [], issued_passes = []\<rparr>) (Choice3 ''AA11'') 0
        = ((\<lparr>parking_lot = \<lparr>name = ''Ostim'', capacity = 1, parked_vehicles = []\<rparr>,
      registered_drivers = [], issued_passes = []\<rparr>), [SectionHeader ''Vehicle Parking'', ParkingFailedLine (ParkingError m)], True)"
    using h1
      park_error_caught_in_method [where s = "(\<lparr>parking_lot = \<lparr>name = ''Ostim'', capacity = 1, parked_vehicles = []\<rparr>,
      registered_drivers = [], issued_passes = []\<rparr>)" and plate = "''AA11''" and now = 0
        and rest = "[]" and entry_time_override = None and nm = "[]" and did = "[]"
        and v_type = "[]" and pass_type = "[]" and e = EOFError and cmd = Choice5]
    by blast
  have c2: "menu_body (\<lparr>parking_lot = \<lparr>name = ''Ostim'', capacity = 1, parked_vehicles = []\<rparr>,
      registered_drivers = [(''AA11'', \<lparr>full_name = ''Ada'', driver_id = ''7'',
      vehicle = \<lparr>license_plate = ''AA11'', vehicle_type = ''car''\<rparr>\<rparr>)], issued_passes = []\<rparr>) (Choice1 ''Bob'' ''8'' ''aa 11'' ''car'') 0
     = ((\<lparr>parking_lot = \<lparr>name = ''Ostim'', capacity = 1, parked_vehicles = []\<rparr>,
      registered_drivers = [(''AA11'', \<lparr>full_name = ''Ada'', driver_id = ''7'',
      vehicle = \<lparr>license_plate = ''AA11'', vehicle_type = ''car''\<rparr>\<rparr>)], issued_passes = []\<rparr>), [SectionHeader ''Driver and Vehicle Registration'',
          OperationErrorLine
            (DuplicatePlateError ''ERROR: Plate (AA11) is already registered in the system.'')],
        True)"
    using h2
      park_error_caught_in_method [where s = "(\<lparr>parking_lot = \<lparr>name = ''Ostim'', capacity = 1, parked_vehicles = []\<rparr>,
      registered_drivers = [(''AA11'', \<lparr>full_name = ''Ada'', driver_id = ''7'',
      vehicle = \<lparr>license_plate = ''AA11'', vehicle_type = ''car''\<rparr>\<rparr>)], issued_passes = []\<rparr>)" and plate = "''aa 11''" and now = 0
        and rest = "[]" and entry_time_override = None
        and nm = "''Bob''" and did = "''8''" and v_type = "''car''" and pass_type = "[]"
        and e = "DuplicatePlateError ''ERROR: Plate (AA11) is already registered in the system.''"
        and cmd = Choice5]
    by blast
  have c3: "menu_body (\<lparr>parking_lot = \<lparr>name = ''Ostim'', capacity = 1, parked_vehicles = []\<rparr>,
      registered_drivers = [], issued_passes = []\<rparr>) (Choice2 ''AA11'' ''student'') 0
     = ((\<lparr>parking_lot = \<lparr>name = ''Ostim'', capacity = 1, parked_vehicles = []\<rparr>,
      registered_drivers = [], issued_passes = []\<rparr>), [SectionHeader ''Pass Issuance'',
          OperationErrorLine (ParkingError (''ERROR: No driver or pass registered for plate (AA11). ''
            @ ''Registration is required first!''))],
        True)"
    using h3
      park_error_caught_in_method [where s = "(\<lparr>parking_lot = \<lparr>name = ''Ostim'', capacity = 1, parked_vehicles = []\<rparr>,
      registered_drivers = [], issued_passes = []\<rparr>)" and plate = "''AA11''" and now = 0
        and rest = "[]" and entry_time_override = None and nm = "[]" and did = "[]"
        and v_type = "[]" and pass_type = "''student''"
        and e = "ParkingError (''ERROR: No driver or pass registered for plate (AA11). ''
           @ ''Registration is required first!'')"
        and cmd = Choice5]
    by blast
  show ?thesis
    using h1 h2 h3 c1 c2 c3 by blast
qed

text \<open>Every pass that \<open>issue_pass\<close> records has a non-negative rate.\<close>

lemma calculate_fee_nonneg:
  "0 \<le> fee_rate p \<Longrightarrow> calculate_fee p h = Inr fee \<Longrightarrow> 0 \<le> fee"
  by (auto simp add: calculate_fee_def base_calculate_fee_def staff_calculate_fee_def Let_def
      split: pass_class.splits if_splits)

lemma calculate_fee_returns:
  "0 \<le> h \<Longrightarrow> \<exists>fee. calculate_fee p h = Inr fee"
  by (simp add: calculate_fee_def base_calculate_fee_def staff_calculate_fee_def Let_def
      split: pass_class.splits)

lemma sys_step_rates:
  assumes "\<forall>k p. map_of (issued_passes s) k = Some p \<longrightarrow> 0 \<le> fee_rate p"
  shows "\<forall>k p. map_of (issued_passes (sys_step s op)) k = Some p \<longrightarrow> 0 \<le> fee_rate p"
proof (cases op)
  case (Register nm did plate v_type)
  with assms show ?thesis
    by (simp add: register_unfold)
next
  case (IssuePass plate pass_type now)
  have "0 \<le> fee_rate (StudentPass pid d)" and "0 \<le> fee_rate (StaffPass pid d)" for pid d
    by (simp_all add: StudentPass_def StaffPass_def ParkingPass_init_def STUDENT_RATE_def
        STAFF_RATE_def)
  with assms IssuePass show ?thesis
    by (auto simp add: issue_pass_unfold map_add_def split: option.splits if_splits)
next
  case (Park plate now)
  with assms show ?thesis
    by (simp add: park_vehicle_unfold split: prod.splits sum.splits)
next
  case (RemoveAndFee plate ov now)
  with assms show ?thesis
    by (simp add: remove_vehicle_and_fee_unfold Let_def split: option.splits sum.splits)
next
  case ListActivePasses
  with assms show ?thesis
    by (simp add: list_active_passes_def split: prod.splits sum.splits)
qed

lemma sys_run_rates:
  "\<forall>k p. map_of (issued_passes s) k = Some p \<longrightarrow> 0 \<le> fee_rate p \<Longrightarrow>
   \<forall>k p. map_of (issued_passes (sys_run s ops)) k = Some p \<longrightarrow> 0 \<le> fee_rate p"
proof (induction ops arbitrary: s)
  case Nil
  then show ?case by simp
next
  case (Cons op ops)
  from Cons.prems have "\<forall>k p. map_of (issued_passes (sys_step s op)) k = Some p \<longrightarrow> 0 \<le> fee_rate p"
    by (rule sys_step_rates)
  from Cons.IH [OF this] show ?case
    by simp
qed

lemma hours_nonneg: "t1 \<le> t2 \<Longrightarrow> 0 \<le> total_seconds (t2 - t1) / 3600"
  by (simp add: total_seconds_def)

text \<open>
  C8. In a system reached from its constructor by any sequence of method calls, for a
  plate with an issued pass: after \<open>park_vehicle\<close> parked it, \<open>remove_vehicle_and_fee\<close>
  leaves the plate not parked, every fee it reports is non-negative, and when the clock
  did not run backwards (and no entry time override is given) it does report a fee, the
  one \<open>calculate_fee\<close> of the plate's pass gives for the hours between the two calls.
\<close>

theorem park_then_remove_round_trip:
  "ParkingSystem_init nm cap = Inr s0 \<and> s = sys_run s0 ops \<and>
   map_of (issued_passes s) (clean_plate plate) \<noteq> None \<and>
   park_vehicle s plate t_in = (r, s', [ParkedLine (clean_plate plate)]) \<and>
   remove_vehicle_and_fee s' plate entry_time_override t_out = (r', s'', out') \<longrightarrow>
     \<not> is_parked (parking_lot s'') plate \<and>
     (\<forall>pl en ex h c rt fee. ExitInfoLines pl en ex h c rt fee \<in> set out' \<longrightarrow> 0 \<le> fee) \<and>
     (t_in \<le> t_out \<and> entry_time_override = None \<longrightarrow>
        (\<exists>p fee. map_of (issued_passes s) (clean_plate plate) = Some p \<and>
           calculate_fee p (total_seconds (t_out - t_in) / 3600) = Inr fee \<and> 0 \<le> fee \<and>
           out' = [RemovedLine (clean_plate plate),
                   ExitInfoLines (clean_plate plate) t_in t_out (total_seconds (t_out - t_in) / 3600)
                     (pass_class p) (fee_rate p) fee]))"
proof (intro impI, elim conjE)
  assume init: "ParkingSystem_init nm cap = Inr s0"
    and run: "s = sys_run s0 ops"
    and issued: "map_of (issued_passes s) (clean_plate plate) \<noteq> None"
    and park: "park_vehicle s plate t_in = (r, s', [ParkedLine (clean_plate plate)])"
    and remove: "remove_vehicle_and_fee s' plate entry_time_override t_out = (r', s'', out')"
  from init have "\<forall>k p. map_of (issued_passes s0) k = Some p \<longrightarrow> 0 \<le> fee_rate p"
    by (auto simp add: ParkingSystem_init_def split: sum.splits)
  with run have rates: "\<forall>k p. map_of (issued_passes s) k = Some p \<longrightarrow> 0 \<le> fee_rate p"
    using sys_run_rates by blast
  from issued obtain p where p: "map_of (issued_passes s) (clean_plate plate) = Some p"
    by auto
  with rates have rate: "0 \<le> fee_rate p"
    by blast
  from park issued have parked: "s' = s\<lparr>parking_lot := (parking_lot s)\<lparr>parked_vehicles :=
        parked_vehicles (parking_lot s) @ [(clean_plate plate, t_in)]\<rparr>\<rparr>"
    and fresh: "map_of (parked_vehicles (parking_lot s)) (clean_plate plate) = None"
    by (auto simp add: park_vehicle_unfold add_vehicle_unfold split: if_splits)
  from parked fresh have entry: "map_of (parked_vehicles (parking_lot s')) (clean_plate plate) = Some t_in"
    by (simp add: map_add_def)
  from parked p have pass_kept: "map_of (issued_passes s') (clean_plate plate) = Some p"
    by simp
  have gone: "\<not> is_parked (parking_lot s'') plate"
    using remove entry pass_kept
    by (auto simp add: remove_vehicle_and_fee_unfold Let_def is_parked_def delete_conv'
        split: sum.splits)
  have fees: "\<forall>pl en ex h c rt fee. ExitInfoLines pl en ex h c rt fee \<in> set out' \<longrightarrow> 0 \<le> fee"
    using remove entry pass_kept calculate_fee_nonneg [OF rate]
    by (auto simp add: remove_vehicle_and_fee_unfold Let_def split: sum.splits if_splits)
  have billed: "\<exists>p fee. map_of (issued_passes s) (clean_plate plate) = Some p \<and>
           calculate_fee p (total_seconds (t_out - t_in) / 3600) = Inr fee \<and> 0 \<le> fee \<and>
           out' = [RemovedLine (clean_plate plate),
                   ExitInfoLines (clean_plate plate) t_in t_out (total_seconds (t_out - t_in) / 3600)
                     (pass_class p) (fee_rate p) fee]"
    if "t_in \<le> t_out \<and> entry_time_override = None"
  proof -
    from that have "t_in \<le> t_out"
      by simp
    then have "0 \<le> total_seconds (t_out - t_in) / 3600"
      by (rule hours_nonneg)
    then obtain fee where fee: "calculate_fee p (total_seconds (t_out - t_in) / 3600) = Inr fee"
      using calculate_fee_returns by blast
    with rate have "0 \<le> fee"
      by (rule calculate_fee_nonneg)
    moreover from remove entry pass_kept fee that
    have "out' = [RemovedLine (clean_plate plate),
                   ExitInfoLines (clean_plate plate) t_in t_out (total_seconds (t_out - t_in) / 3600)
                     (pass_class p) (fee_rate p) fee]"
      by (auto simp add: remove_vehicle_and_fee_unfold Let_def)
    ultimately show ?thesis
      using p fee by blast
  qed
  from gone fees billed
  show "\<not> is_parked (parking_lot s'') plate \<and>
     (\<forall>pl en ex h c rt fee. ExitInfoLines pl en ex h c rt fee \<in> set out' \<longrightarrow> 0 \<le> fee) \<and>
     (t_in \<le> t_out \<and> entry_time_override = None \<longrightarrow>
        (\<exists>p fee. map_of (issued_passes s) (clean_plate plate) = Some p \<and>
           calculate_fee p (total_seconds (t_out - t_in) / 3600) = Inr fee \<and> 0 \<le> fee \<and>
           out' = [RemovedLine (clean_plate plate),
                   ExitInfoLines (clean_plate plate) t_in t_out (total_seconds (t_out - t_in) / 3600)
                     (pass_class p) (fee_rate p) fee]))"
    by blast
qed

theorem park_then_remove_round_trip_witness:
  "ParkingSystem_init ''Ostim'' 1 = Inr (\<lparr>parking_lot = \<lparr>name = ''Ostim'', capacity = 1, parked_vehicles = []\<rparr>,
      registered_drivers = [], issued_passes = []\<rparr>) \<and>
   map_of (issued_passes (sys_run (\<lparr>parking_lot = \<lparr>name = ''Ostim'', capacity = 1, parked_vehicles = []\<rparr>,
      registered_drivers = [], issued_passes = []\<rparr>) [Register ''Ada'' ''7'' ''aa 11'' ''car'', IssuePass ''aa 11'' ''Student'' 3])) (clean_plate ''AA 11'') \<noteq> None \<and>
   snd (snd (park_vehicle (sys_run (\<lparr>parking_lot = \<lparr>name = ''Ostim'', capacity = 1, parked_vehicles = []\<rparr>,
      registered_drivers = [], issued_passes = []\<rparr>) [Register ''Ada'' ''7'' ''aa 11'' ''car'', IssuePass ''aa 11'' ''Student'' 3]) ''AA 11'' 1000)) = [ParkedLine (clean_plate ''AA 11'')] \<and>
   \<not> is_parked
       (parking_lot (fst (snd (remove_vehicle_and_fee (fst (snd (park_vehicle (sys_run (\<lparr>parking_lot = \<lparr>name = ''Ostim'', capacity = 1, parked_vehicles = []\<rparr>,
      registered_drivers = [], issued_passes = []\<rparr>) [Register ''Ada'' ''7'' ''aa 11'' ''car'', IssuePass ''aa 11'' ''Student'' 3]) ''AA 11'' 1000))) ''AA 11'' None 7200001000))))
       ''AA 11'' \<and>
   (\<exists>p fee. calculate_fee p (total_seconds (7200001000 - 1000) / 3600) = Inr fee \<and> 0 \<le> fee \<and>
      snd (snd (remove_vehicle_and_fee (fst (snd (park_vehicle (sys_run (\<lparr>parking_lot = \<lparr>name = ''Ostim'', capacity = 1, parked_vehicles = []\<rparr>,
      registered_drivers = [], issued_passes = []\<rparr>) [Register ''Ada'' ''7'' ''aa 11'' ''car'', IssuePass ''aa 11'' ''Student'' 3]) ''AA 11'' 1000))) ''AA 11'' None 7200001000))
        = [RemovedLine (clean_plate ''AA 11''),
           ExitInfoLines (clean_plate ''AA 11'') 1000 7200001000
             (total_seconds (7200001000 - 1000) / 3600) (pass_class p) (fee_rate p) fee])"
proof -
  have h1: "ParkingSystem_init ''Ostim'' 1 = Inr (\<lparr>parking_lot = \<lparr>name = ''Ostim'', capacity = 1, parked_vehicles = []\<rparr>,
      registered_drivers = [], issued_passes = []\<rparr>)"
    by (simp add: ParkingSystem_init_def ParkingLot_init_def validate_capacity_def)
  have h2: "map_of (issued_passes (sys_run (\<lparr>parking_lot = \<lparr>name = ''Ostim'', capacity = 1, parked_vehicles = []\<rparr>,
      registered_drivers = [], issued_passes = []\<rparr>) [Register ''Ada'' ''7'' ''aa 11'' ''car'', IssuePass ''aa 11'' ''Student'' 3])) (clean_plate ''AA 11'') \<noteq> None"
    by code_simp
  have h3: "snd (snd (park_vehicle (sys_run (\<lparr>parking_lot = \<lparr>name = ''Ostim'', capacity = 1, parked_vehicles = []\<rparr>,
      registered_drivers = [], issued_passes = []\<rparr>) [Register ''Ada'' ''7'' ''aa 11'' ''car'', IssuePass ''aa 11'' ''Student'' 3]) ''AA 11'' 1000))
      = [ParkedLine (clean_plate ''AA 11'')]"
    by code_simp
  have h4: "park_vehicle (sys_run (\<lparr>parking_lot = \<lparr>name = ''Ostim'', capacity = 1, parked_vehicles = []\<rparr>,
      registered_drivers = [], issued_passes = []\<rparr>) [Register ''Ada'' ''7'' ''aa 11'' ''car'', IssuePass ''aa 11'' ''Student'' 3]) ''AA 11'' 1000
      = (fst (park_vehicle (sys_run (\<lparr>parking_lot = \<lparr>name = ''Ostim'', capacity = 1, parked_vehicles = []\<rparr>,
      registered_drivers = [], issued_passes = []\<rparr>) [Register ''Ada'' ''7'' ''aa 11'' ''car'', IssuePass ''aa 11'' ''Student'' 3]) ''AA 11'' 1000), (fst (snd (park_vehicle (sys_run (\<lparr>parking_lot = \<lparr>name = ''Ostim'', capacity = 1, parked_vehicles = []\<rparr>,
      registered_drivers = [], issued_passes = []\<rparr>) [Register ''Ada'' ''7'' ''aa 11'' ''car'', IssuePass ''aa 11'' ''Student'' 3]) ''AA 11'' 1000))),
         [ParkedLine (clean_plate ''AA 11'')])"
    using h3 by (metis prod.collapse)
  have h5: "remove_vehicle_and_fee (fst (snd (park_vehicle (sys_run (\<lparr>parking_lot = \<lparr>name = ''Ostim'', capacity = 1, parked_vehicles = []\<rparr>,
      registered_drivers = [], issued_passes = []\<rparr>) [Register ''Ada'' ''7'' ''aa 11'' ''car'', IssuePass ''aa 11'' ''Student'' 3]) ''AA 11'' 1000))) ''AA 11'' None 7200001000
      = (fst (remove_vehicle_and_fee (fst (snd (park_vehicle (sys_run (\<lparr>parking_lot = \<lparr>name = ''Ostim'', capacity = 1, parked_vehicles = []\<rparr>,
      registered_drivers = [], issued_passes = []\<rparr>) [Register ''Ada'' ''7'' ''aa 11'' ''car'', IssuePass ''aa 11'' ''Student'' 3]) ''AA 11'' 1000))) ''AA 11'' None 7200001000),
         fst (snd (remove_vehicle_and_fee (fst (snd (park_vehicle (sys_run (\<lparr>parking_lot = \<lparr>name = ''Ostim'', capacity = 1, parked_vehicles = []\<rparr>,
      registered_drivers = [], issued_passes = []\<rparr>) [Register ''Ada'' ''7'' ''aa 11'' ''car'', IssuePass ''aa 11'' ''Student'' 3]) ''AA 11'' 1000))) ''AA 11'' None 7200001000)),
         snd (snd (remove_vehicle_and_fee (fst (snd (park_vehicle (sys_run (\<lparr>parking_lot = \<lparr>name = ''Ostim'', capacity = 1, parked_vehicles = []\<rparr>,
      registered_drivers = [], issued_passes = []\<rparr>) [Register ''Ada'' ''7'' ''aa 11'' ''car'', IssuePass ''aa 11'' ''Student'' 3]) ''AA 11'' 1000))) ''AA 11'' None 7200001000)))"
    by simp
  have h6: "(1000::int) \<le> 7200001000"
    by simp
  have hyps: "ParkingSystem_init ''Ostim'' 1 = Inr (\<lparr>parking_lot = \<lparr>name = ''Ostim'', capacity = 1, parked_vehicles = []\<rparr>,
      registered_drivers = [], issued_passes = []\<rparr>) \<and> sys_run (\<lparr>parking_lot = \<lparr>name = ''Ostim'', capacity = 1, parked_vehicles = []\<rparr>,
      registered_drivers = [], issued_passes = []\<rparr>) [Register ''Ada'' ''7'' ''aa 11'' ''car'', IssuePass ''aa 11'' ''Student'' 3] = sys_run (\<lparr>parking_lot = \<lparr>name = ''Ostim'', capacity = 1, parked_vehicles = []\<rparr>,
      registered_drivers = [], issued_passes = []\<rparr>) [Register ''Ada'' ''7'' ''aa 11'' ''car'', IssuePass ''aa 11'' ''Student'' 3] \<and>
      map_of (issued_passes (sys_run (\<lparr>parking_lot = \<lparr>name = ''Ostim'', capacity = 1, parked_vehicles = []\<rparr>,
      registered_drivers = [], issued_passes = []\<rparr>) [Register ''Ada'' ''7'' ''aa 11'' ''car'', IssuePass ''aa 11'' ''Student'' 3])) (clean_plate ''AA 11'') \<noteq> None \<and>
      park_vehicle (sys_run (\<lparr>parking_lot = \<lparr>name = ''Ostim'', capacity = 1, parked_vehicles = []\<rparr>,
      registered_drivers = [], issued_passes = []\<rparr>) [Register ''Ada'' ''7'' ''aa 11'' ''car'', IssuePass ''aa 11'' ''Student'' 3]) ''AA 11'' 1000
        = (fst (park_vehicle (sys_run (\<lparr>parking_lot = \<lparr>name = ''Ostim'', capacity = 1, parked_vehicles = []\<rparr>,
      registered_drivers = [], issued_passes = []\<rparr>) [Register ''Ada'' ''7'' ''aa 11'' ''car'', IssuePass ''aa 11'' ''Student'' 3]) ''AA 11'' 1000), (fst (snd (park_vehicle (sys_run (\<lparr>parking_lot = \<lparr>name = ''Ostim'', capacity = 1, parked_vehicles = []\<rparr>,
      registered_drivers = [], issued_passes = []\<rparr>) [Register ''Ada'' ''7'' ''aa 11'' ''car'', IssuePass ''aa 11'' ''Student'' 3]) ''AA 11'' 1000))),
           [ParkedLine (clean_plate ''AA 11'')]) \<and>
      remove_vehicle_and_fee (fst (snd (park_vehicle (sys_run (\<lparr>parking_lot = \<lparr>name = ''Ostim'', capacity = 1, parked_vehicles = []\<rparr>,
      registered_drivers = [], issued_passes = []\<rparr>) [Register ''Ada'' ''7'' ''aa 11'' ''car'', IssuePass ''aa 11'' ''Student'' 3]) ''AA 11'' 1000))) ''AA 11'' None 7200001000
        = (fst (remove_vehicle_and_fee (fst (snd (park_vehicle (sys_run (\<lparr>parking_lot = \<lparr>name = ''Ostim'', capacity = 1, parked_vehicles = []\<rparr>,
      registered_drivers = [], issued_passes = []\<rparr>) [Register ''Ada'' ''7'' ''aa 11'' ''car'', IssuePass ''aa 11'' ''Student'' 3]) ''AA 11'' 1000))) ''AA 11'' None 7200001000),
           fst (snd (remove_vehicle_and_fee (fst (snd (park_vehicle (sys_run (\<lparr>parking_lot = \<lparr>name = ''Ostim'', capacity = 1, parked_vehicles = []\<rparr>,
      registered_drivers = [], issued_passes = []\<rparr>) [Register ''Ada'' ''7'' ''aa 11'' ''car'', IssuePass ''aa 11'' ''Student'' 3]) ''AA 11'' 1000))) ''AA 11'' None 7200001000)),
           snd (snd (remove_vehicle_and_fee (fst (snd (park_vehicle (sys_run (\<lparr>parking_lot = \<lparr>name = ''Ostim'', capacity = 1, parked_vehicles = []\<rparr>,
      registered_drivers = [], issued_passes = []\<rparr>) [Register ''Ada'' ''7'' ''aa 11'' ''car'', IssuePass ''aa 11'' ''Student'' 3]) ''AA 11'' 1000))) ''AA 11'' None 7200001000)))"
    using h1 h2 h4 h5 by blast
  show ?thesis
    using h1 h2 h3 h6
      park_then_remove_round_trip [where nm = "''Ostim''" and cap = 1 and ?s0.0 = "(\<lparr>parking_lot = \<lparr>name = ''Ostim'', capacity = 1, parked_vehicles = []\<rparr>,
      registered_drivers = [], issued_passes = []\<rparr>)"
        and s = "sys_run (\<lparr>parking_lot = \<lparr>name = ''Ostim'', capacity = 1, parked_vehicles = []\<rparr>,
      registered_drivers = [], issued_passes = []\<rparr>) [Register ''Ada'' ''7'' ''aa 11'' ''car'', IssuePass ''aa 11'' ''Student'' 3]" and ops = "[Register ''Ada'' ''7'' ''aa 11'' ''car'', IssuePass ''aa 11'' ''Student'' 3]" and plate = "''AA 11''"
        and r = "fst (park_vehicle (sys_run (\<lparr>parking_lot = \<lparr>name = ''Ostim'', capacity = 1, parked_vehicles = []\<rparr>,
      registered_drivers = [], issued_passes = []\<rparr>) [Register ''Ada'' ''7'' ''aa 11'' ''car'', IssuePass ''aa 11'' ''Student'' 3]) ''AA 11'' 1000)" and t_in = 1000
        and s' = "(fst (snd (park_vehicle (sys_run (\<lparr>parking_lot = \<lparr>name = ''Ostim'', capacity = 1, parked_vehicles = []\<rparr>,
      registered_drivers = [], issued_passes = []\<rparr>) [Register ''Ada'' ''7'' ''aa 11'' ''car'', IssuePass ''aa 11'' ''Student'' 3]) ''AA 11'' 1000)))" and entry_time_override = None and t_out = 7200001000
        and r' = "fst (remove_vehicle_and_fee (fst (snd (park_vehicle (sys_run (\<lparr>parking_lot = \<lparr>name = ''Ostim'', capacity = 1, parked_vehicles = []\<rparr>,
      registered_drivers = [], issued_passes = []\<rparr>) [Register ''Ada'' ''7'' ''aa 11'' ''car'', IssuePass ''aa 11'' ''Student'' 3]) ''AA 11'' 1000))) ''AA 11'' None 7200001000)"
        and s'' = "fst (snd (remove_vehicle_and_fee (fst (snd (park_vehicle (sys_run (\<lparr>parking_lot = \<lparr>name = ''Ostim'', capacity = 1, parked_vehicles = []\<rparr>,
      registered_drivers = [], issued_passes = []\<rparr>) [Register ''Ada'' ''7'' ''aa 11'' ''car'', IssuePass ''aa 11'' ''Student'' 3]) ''AA 11'' 1000))) ''AA 11'' None 7200001000))"
        and out' = "snd (snd (remove_vehicle_and_fee (fst (snd (park_vehicle (sys_run (\<lparr>parking_lot = \<lparr>name = ''Ostim'', capacity = 1, parked_vehicles = []\<rparr>,
      registered_drivers = [], issued_passes = []\<rparr>) [Register ''Ada'' ''7'' ''aa 11'' ''car'', IssuePass ''aa 11'' ''Student'' 3]) ''AA 11'' 1000))) ''AA 11'' None 7200001000))",
        THEN mp, OF hyps]
    by blast
qed

end
